theory Spec2Isabelle
  imports Main "HOL-Library.Sublist"
begin

section \<open>JavaScript values\<close>

text \<open>
  This theory embeds the conversation state of the chat client
  (\<^verbatim>\<open>static/js/chat_logic.js\<close>): the session functions (\<^verbatim>\<open>fetchSessions\<close>,
  \<^verbatim>\<open>displaySessions\<close>, \<^verbatim>\<open>selectSession\<close>, \<^verbatim>\<open>newChat\<close>, deleting and renaming), the
  renderers, \<^verbatim>\<open>addMessage\<close> and \<^verbatim>\<open>sendMessage\<close>. The voice recorder, the image viewer, the
  side bar toggle, the timers of the reveal and of the scrolling, and the layout
  (\<^verbatim>\<open>auto_resize\<close>) are left out: none of them writes the state that is modelled.

  The client is dynamically typed: what it reads from the backend is whatever
  \<^verbatim>\<open>response.json()\<close> produced. Values are therefore modelled as parsed JSON extended
  with \<^verbatim>\<open>undefined\<close>. Numbers are the integers, printed in decimal; strings are lists of
  code units below 256. An object is its list of own properties, the first entry of a key
  being the property.
\<close>

datatype jsval =
    JUndefined
  | JNull
  | JBool bool
  | JNum int
  | JStr string
  | JArr "jsval list"
  | JObj "(string \<times> jsval) list"

text \<open>What a \<^verbatim>\<open>throw\<close> carries. \<open>FetchFailed\<close> is the rejection of \<^verbatim>\<open>fetch\<close>,
  \<open>SyntaxError\<close> the rejection of \<^verbatim>\<open>response.json()\<close>, \<open>LibraryError\<close> an error raised by
  the markdown library.\<close>

datatype exn = TypeError | SyntaxError | FetchFailed | Error string | LibraryError

text \<open>Truthiness, as tested by \<^verbatim>\<open>if (v)\<close>, \<^verbatim>\<open>!v\<close>, \<^verbatim>\<open>a || b\<close> and \<^verbatim>\<open>a && b\<close>.\<close>

fun truthy :: "jsval \<Rightarrow> bool" where
  "truthy JUndefined = False"
| "truthy JNull = False"
| "truthy (JBool b) = b"
| "truthy (JNum n) = (n \<noteq> 0)"
| "truthy (JStr s) = (s \<noteq> [])"
| "truthy (JArr xs) = True"
| "truthy (JObj kvs) = True"

definition js_or :: "jsval \<Rightarrow> jsval \<Rightarrow> jsval" where
  "js_or a b = (if truthy a then a else b)"

text \<open>\<^verbatim>\<open>Array.isArray(v)\<close>, the elements of an array, and \<^verbatim>\<open>typeof v\<close>.\<close>

fun isArray :: "jsval \<Rightarrow> bool" where
  "isArray (JArr xs) = True"
| "isArray v = False"

fun elements :: "jsval \<Rightarrow> jsval list" where
  "elements (JArr xs) = xs"
| "elements v = []"

fun typeof :: "jsval \<Rightarrow> string" where
  "typeof JUndefined = ''undefined''"
| "typeof JNull = ''object''"
| "typeof (JBool b) = ''boolean''"
| "typeof (JNum n) = ''number''"
| "typeof (JStr s) = ''string''"
| "typeof (JArr xs) = ''object''"
| "typeof (JObj kvs) = ''object''"

text \<open>
  Strict equality \<^verbatim>\<open>a === b\<close>. Primitives are compared by value. Arrays and objects are
  compared by identity in JavaScript; two of them that meet in a comparison of this
  program come from different parsed bodies, so they are never equal.
\<close>

fun strict_eq :: "jsval \<Rightarrow> jsval \<Rightarrow> bool" where
  "strict_eq JUndefined JUndefined = True"
| "strict_eq JNull JNull = True"
| "strict_eq (JBool a) (JBool b) = (a = b)"
| "strict_eq (JNum a) (JNum b) = (a = b)"
| "strict_eq (JStr a) (JStr b) = (a = b)"
| "strict_eq a b = False"

text \<open>Decimal digits of a number, for \<^verbatim>\<open>ToString\<close>.\<close>

fun dec :: "nat \<Rightarrow> string" where
  "dec n = (if n < 10 then [''0123456789'' ! n]
            else dec (n div 10) @ [''0123456789'' ! (n mod 10)])"

definition show_int :: "int \<Rightarrow> string" where
  "show_int i = (if i < 0 then ''-'' @ dec (nat (- i)) else dec (nat i))"

fun join :: "string \<Rightarrow> string list \<Rightarrow> string" where
  "join sep [] = []"
| "join sep [x] = x"
| "join sep (x # y # ys) = x @ sep @ join sep (y # ys)"

text \<open>
  \<^verbatim>\<open>ToString\<close>, as applied by a template literal \<^verbatim>\<open>`${v}`\<close>, by \<^verbatim>\<open>+\<close> next to a string
  and by \<^verbatim>\<open>sessionStorage.setItem\<close>. An array is joined with commas, \<^verbatim>\<open>null\<close> and
  \<^verbatim>\<open>undefined\<close> elements giving the empty string.
\<close>

fun to_string :: "jsval \<Rightarrow> string" where
  "to_string JUndefined = ''undefined''"
| "to_string JNull = ''null''"
| "to_string (JBool b) = (if b then ''true'' else ''false'')"
| "to_string (JNum n) = show_int n"
| "to_string (JStr s) = s"
| "to_string (JArr xs) =
     join '','' (map (\<lambda>x. if x = JUndefined \<or> x = JNull then [] else to_string x) xs)"
| "to_string (JObj kvs) = ''[object Object]''"

text \<open>
  Property read \<^verbatim>\<open>v.k\<close>. It throws on \<^verbatim>\<open>null\<close> and \<^verbatim>\<open>undefined\<close>. The program reads
  properties by fixed names only; of these, \<^verbatim>\<open>length\<close> is the one that arrays and strings
  have, and none is inherited from a prototype.
\<close>

fun js_get :: "jsval \<Rightarrow> string \<Rightarrow> exn + jsval" where
  "js_get JUndefined k = Inl TypeError"
| "js_get JNull k = Inl TypeError"
| "js_get (JObj kvs) k = Inr (case map_of kvs k of None \<Rightarrow> JUndefined | Some v \<Rightarrow> v)"
| "js_get (JArr xs) k = Inr (if k = ''length'' then JNum (int (length xs)) else JUndefined)"
| "js_get (JStr s) k = Inr (if k = ''length'' then JNum (int (length s)) else JUndefined)"
| "js_get v k = Inr JUndefined"

text \<open>The same read where the receiver is known not to be \<^verbatim>\<open>null\<close> or \<^verbatim>\<open>undefined\<close>.\<close>

definition field :: "jsval \<Rightarrow> string \<Rightarrow> jsval" where
  "field v k = (case js_get v k of Inl e \<Rightarrow> JUndefined | Inr x \<Rightarrow> x)"

text \<open>\<^verbatim>\<open>String.prototype.trim\<close>: white space and line terminators among the code units
  below 256.\<close>

definition is_space :: "char \<Rightarrow> bool" where
  "is_space c = (of_char c \<in> {9, 10, 11, 12, 13, 32, 160 :: nat})"

definition js_trim :: "string \<Rightarrow> string" where
  "js_trim s = rev (dropWhile is_space (rev (dropWhile is_space s)))"

text \<open>\<^verbatim>\<open>s.startsWith(p)\<close> and \<^verbatim>\<open>s.replace(p, r)\<close> with a string pattern: the first
  occurrence of \<open>p\<close> is replaced.\<close>

definition startsWith :: "string \<Rightarrow> string \<Rightarrow> bool" where
  "startsWith s p = (take (length p) s = p)"

fun replace :: "string \<Rightarrow> string \<Rightarrow> string \<Rightarrow> string" where
  "replace [] p r = (if p = [] then r else [])"
| "replace (c # cs) p r =
     (if startsWith (c # cs) p then r @ drop (length p) (c # cs) else c # replace cs p r)"

section \<open>The host\<close>

text \<open>
  What the page is given and the program does not define: the markdown library
  (\<^verbatim>\<open>marked.parse\<close>, which returns markup or throws), the escaping that the DOM performs in
  \<^verbatim>\<open>escapeHtml\<close>, the origin of the page, and the numeric reading of a string in a
  comparison with a number (\<open>positive s\<close>: \<^verbatim>\<open>s > 0\<close>).
\<close>

record host =
  marked_parse :: "jsval \<Rightarrow> exn + string"
  dom_escape :: "jsval \<Rightarrow> string"
  origin :: string
  positive :: "string \<Rightarrow> bool"

text \<open>\<^verbatim>\<open>v > 0\<close> and \<^verbatim>\<open>0 < v\<close> for a value \<open>v\<close>.\<close>

fun gt_zero :: "host \<Rightarrow> jsval \<Rightarrow> bool" where
  "gt_zero h JUndefined = False"
| "gt_zero h JNull = False"
| "gt_zero h (JBool b) = b"
| "gt_zero h (JNum n) = (0 < n)"
| "gt_zero h (JStr s) = positive h s"
| "gt_zero h (JArr xs) = positive h (to_string (JArr xs))"
| "gt_zero h (JObj kvs) = positive h (to_string (JObj kvs))"

section \<open>Exceptions\<close>

text \<open>A computation that returns a value or throws; \<open>andThen\<close> is sequencing.\<close>

definition andThen :: "exn + 'a \<Rightarrow> ('a \<Rightarrow> exn + 'b) \<Rightarrow> exn + 'b" where
  "andThen m f = (case m of Inl e \<Rightarrow> Inl e | Inr x \<Rightarrow> f x)"

text \<open>\<^verbatim>\<open>v.forEach(f)\<close>: arrays have the method, on any other value the call throws.\<close>

definition forEach_receiver :: "jsval \<Rightarrow> exn + jsval list" where
  "forEach_receiver v = (case v of JArr xs \<Rightarrow> Inr xs | _ \<Rightarrow> Inl TypeError)"

text \<open>A \<^verbatim>\<open>forEach\<close> whose callback appends to \<^verbatim>\<open>html\<close>.\<close>

fun forEach_html :: "(jsval \<Rightarrow> exn + string) \<Rightarrow> jsval list \<Rightarrow> exn + string" where
  "forEach_html f [] = Inr []"
| "forEach_html f (x # xs) =
     andThen (f x) (\<lambda>a. andThen (forEach_html f xs) (\<lambda>b. Inr (a @ b)))"

section \<open>Renderers\<close>

definition escapeHtml :: "host \<Rightarrow> jsval \<Rightarrow> string" where
  "escapeHtml h text = dom_escape h text"

definition renderSuggestedActions :: "host \<Rightarrow> jsval \<Rightarrow> exn + string" where
  \<open>renderSuggestedActions h actions =
     (if \<not> truthy actions \<or> strict_eq (field actions ''length'') (JNum 0) then Inr []
      else
        andThen (forEach_receiver actions) (\<lambda>xs.
        andThen (forEach_html (\<lambda>action.
            Inr (''<button class="suggested-action-btn" data-action="'' @ escapeHtml h action
                 @ ''">'' @ escapeHtml h action @ ''</button>'')) xs) (\<lambda>buttons.
        Inr (''<div class="suggested-actions"><div class="suggested-actions-title">Suggested Actions</div><div class="suggested-actions-list">''
             @ buttons @ ''</div></div>''))))\<close>

definition capability_card :: "host \<Rightarrow> jsval \<Rightarrow> exn + string" where
  \<open>capability_card h feature =
     andThen (js_get feature ''icon'') (\<lambda>icon.
     Inr (''
      <div class="capability-card">
        <div class="capability-icon">'' @ to_string icon @ ''</div>
        <div class="capability-info">
          <h3 class="capability-title">'' @ escapeHtml h (field feature ''title'') @ ''</h3>
          <p class="capability-description">'' @ escapeHtml h (field feature ''description'') @ ''</p>
        </div>
      </div>
    ''))\<close>

definition renderCapabilitiesResponse :: "host \<Rightarrow> jsval \<Rightarrow> exn + string" where
  \<open>renderCapabilitiesResponse h data =
     (let html = ''
  <div class="capabilities-wrapper">
    <div class="capabilities-container">
      <div class="capabilities-header">
        <h2 class="capabilities-title">'' @ escapeHtml h (js_or (field data ''title'') (JStr [])) @ ''</h2>
        <!-- Content is typed above, so skipped here -->
      </div>

      <div class="capabilities-grid">
  '';
          features = field data ''features''
      in
        andThen (if truthy features \<and> gt_zero h (field features ''length'')
                 then andThen (forEach_receiver features) (forEach_html (capability_card h))
                 else Inr []) (\<lambda>cards.
        andThen (renderSuggestedActions h (field data ''suggested_actions'')) (\<lambda>suggested.
        Inr (html @ cards @ ''
      </div>
      <div class="capabilities-footer">
        '' @ escapeHtml h (field data ''footer_cta'') @ ''
      </div>
      '' @ suggested @ ''
    </div>
  </div>
  ''))))\<close>

text \<open>The image of a step, as \<^verbatim>\<open>renderTutorialResponse\<close> and
  \<^verbatim>\<open>renderTutorialClarifyResponse\<close> both append it. \<open>step\<close> is neither \<^verbatim>\<open>null\<close> nor
  \<^verbatim>\<open>undefined\<close> here; only a string has \<^verbatim>\<open>startsWith\<close>.\<close>

definition step_image :: "host \<Rightarrow> jsval \<Rightarrow> exn + string" where
  \<open>step_image h step =
     (let image = field step ''image'' in
      if truthy image then
        (case image of
           JStr s \<Rightarrow>
             Inr (''<img src="'' @ (if startsWith s ''http'' then s else origin h @ s)
                  @ ''" alt="Step '' @ to_string (field step ''step_number'')
                  @ ''" class="step-image" onerror="this.style.display='none'">'')
         | _ \<Rightarrow> Inl TypeError)
      else Inr [])\<close>

definition step_item :: "host \<Rightarrow> jsval \<Rightarrow> exn + string" where
  \<open>step_item h step =
     andThen (js_get step ''step_number'') (\<lambda>step_number.
     andThen (marked_parse h (field step ''text'')) (\<lambda>text.
     andThen (step_image h step) (\<lambda>img.
     Inr (''<div class="step-item">'' @ ''<div class="step-header">''
          @ ''<div class="step-number">'' @ to_string step_number @ ''</div>''
          @ ''<div class="step-text">'' @ text @ ''</div>''
          @ ''</div>'' @ img @ ''</div>''))))\<close>

definition renderTutorialResponse :: "host \<Rightarrow> jsval \<Rightarrow> exn + string" where
  \<open>renderTutorialResponse h data =
     (let help_note = field data ''help_note''; steps = field data ''steps'' in
      andThen (if truthy help_note
               then andThen (marked_parse h help_note) (\<lambda>m.
                      Inr (''<div class="help-note">'' @ m @ ''</div>''))
               else Inr []) (\<lambda>note.
      andThen (if truthy steps \<and> gt_zero h (field steps ''length'')
               then andThen (forEach_receiver steps) (\<lambda>xs.
                    andThen (forEach_html (step_item h) xs) (\<lambda>items.
                      Inr (''<div class="steps-container">'' @ items @ ''</div>'')))
               else Inr []) (\<lambda>container.
      andThen (marked_parse h (js_or (field data ''pro_tip'') (JStr []))) (\<lambda>pro_tip.
      andThen (marked_parse h (js_or (field data ''completion_message'') (JStr []))) (\<lambda>completion.
      andThen (renderSuggestedActions h (field data ''suggested_actions'')) (\<lambda>suggested.
      Inr (''<div class="tutorial-content">'' @ note @ container
           @ ''<div class="completion-message"><strong>Pro tip:</strong> '' @ pro_tip @ ''</div>''
           @ ''<div class="completion-message">'' @ completion @ ''</div>''
           @ suggested @ ''</div>'')))))))\<close>

definition renderTutorialClarifyResponse :: "host \<Rightarrow> jsval \<Rightarrow> exn + string" where
  \<open>renderTutorialClarifyResponse h data =
     (let cs = field data ''clarified_step'' in
      andThen (js_get cs ''step_number'') (\<lambda>step_number.
      andThen (marked_parse h (field cs ''clarified'')) (\<lambda>clarified.
      andThen (step_image h cs) (\<lambda>img.
      andThen (renderSuggestedActions h (field data ''suggested_actions'')) (\<lambda>suggested.
      Inr (''<div class="tutorial-content">''
           @ ''<div class="step-item"><div class="step-header"><div class="step-number">''
           @ to_string step_number @ ''</div><div class="step-text">'' @ clarified
           @ ''</div></div>'' @ img @ ''</div>'' @ suggested @ ''</div>''))))))\<close>

definition renderRegularResponse :: "host \<Rightarrow> jsval \<Rightarrow> exn + string" where
  \<open>renderRegularResponse h data =
     (let completion_message = field data ''completion_message'' in
      andThen (if truthy completion_message
               then andThen (marked_parse h completion_message) (\<lambda>m.
                      Inr (''<div class="completion-message">'' @ m @ ''</div>''))
               else Inr []) (\<lambda>completion.
      andThen (renderSuggestedActions h (field data ''suggested_actions'')) (\<lambda>suggested.
      Inr (completion @ suggested))))\<close>

section \<open>The page and the client state\<close>

text \<open>
  A message bubble of \<^verbatim>\<open>#chatHistory\<close> holds what \<^verbatim>\<open>addMessage\<close> put into it. The reveal
  of \<^verbatim>\<open>typeWriter\<close> runs on timers, which are not modelled: \<open>TypeWriter text html\<close> stands
  for a reveal of \<open>text\<close> that was started, with \<open>html\<close> the markup its callback appends.
\<close>

datatype part =
    TypeWriter jsval string
  | FadeIn string
  | Markdown string
  | Complex string

datatype node = TypingIndicator | UserMessage jsval | AssistantMessage "part list"

record item =
  item_session_id :: jsval
  item_title :: jsval
  item_text :: jsval
  item_active :: bool

datatype sidebar = Static | Blank | NoChats | RecentChats "item list"

text \<open>The requests sent with \<^verbatim>\<open>fetch\<close>, and the answer to one: the promise rejects, or
  there is a status and a body that \<^verbatim>\<open>response.json()\<close> parses or not.\<close>

datatype request =
    ListSessions string
  | CreateSession string string
  | GetSession string
  | DeleteSession string
  | RenameSession string string
  | Chat string jsval "jsval list"

datatype response = Rejected | Response nat "jsval option"

definition ok :: "nat \<Rightarrow> bool" where
  "ok status = (200 \<le> status \<and> status \<le> 299)"

definition USER_ID :: string where
  "USER_ID = ''guest_user''"

definition LICENSE_ID :: string where
  "LICENSE_ID = ''guest_license''"

text \<open>
  The module's variables, the parts of the page that the program reads back, and what it
  leaves outside: the \<^verbatim>\<open>activeSessionId\<close> key of \<^verbatim>\<open>sessionStorage\<close>, the requests made,
  the lines of \<^verbatim>\<open>console.error\<close> and the exceptions that no handler caught.
\<close>

record client =
  chatStateHistory :: jsval
  lastTutorialSteps :: "jsval list"
  currentSessionId :: jsval
  isFirstLoad :: bool
  sessionToDelete :: jsval
  chatHistory :: "node list"
  chatHistory_active :: bool
  welcomeContent_hidden :: bool
  actions_hidden :: bool
  messageInput :: string
  sendBtn_disabled :: bool
  confirmModal_active :: bool
  sidebarContent :: sidebar
  sessionStorage :: "string option"
  requests :: "request list"
  console :: "(string \<times> exn) list"
  unhandled :: "exn list"

text \<open>The state when the script has been loaded.\<close>

definition initial :: "string option \<Rightarrow> client" where
  "initial pointer =
     \<lparr> chatStateHistory = JArr [], lastTutorialSteps = [], currentSessionId = JNull,
       isFirstLoad = True, sessionToDelete = JNull, chatHistory = [],
       chatHistory_active = False, welcomeContent_hidden = False, actions_hidden = False,
       messageInput = [], sendBtn_disabled = False, confirmModal_active = False,
       sidebarContent = Static, sessionStorage = pointer, requests = [], console = [],
       unhandled = [] \<rparr>"

text \<open>
  A statement sequence that may throw: the exception, if any, and the state reached.
  \<open>seq\<close> runs the second part only when the first did not throw; \<open>catch_log\<close> is a
  \<^verbatim>\<open>catch\<close> block that only calls \<^verbatim>\<open>console.error\<close>.
\<close>

type_synonym step = "client \<Rightarrow> exn option \<times> client"

definition seq :: "step \<Rightarrow> step \<Rightarrow> step" where
  "seq f g \<sigma> = (case f \<sigma> of (None, \<sigma>') \<Rightarrow> g \<sigma>' | (Some e, \<sigma>') \<Rightarrow> (Some e, \<sigma>'))"

definition lift :: "(client \<Rightarrow> client) \<Rightarrow> step" where
  "lift f \<sigma> = (None, f \<sigma>)"

definition catch_log :: "string \<Rightarrow> step \<Rightarrow> client \<Rightarrow> client" where
  "catch_log label f \<sigma> =
     (case f \<sigma> of (None, \<sigma>') \<Rightarrow> \<sigma>'
      | (Some e, \<sigma>') \<Rightarrow> \<sigma>'\<lparr>console := console \<sigma>' @ [(label, e)]\<rparr>)"

fun forEach_step :: "(jsval \<Rightarrow> step) \<Rightarrow> jsval list \<Rightarrow> step" where
  "forEach_step f [] \<sigma> = (None, \<sigma>)"
| "forEach_step f (x # xs) \<sigma> = seq (f x) (forEach_step f xs) \<sigma>"

section \<open>addMessage\<close>

text \<open>The synchronous part of \<^verbatim>\<open>typeWriter\<close>: the first call of \<^verbatim>\<open>type()\<close>. With
  \<^verbatim>\<open>0 < text.length\<close> it takes \<^verbatim>\<open>text.substring(0, 1)\<close>, which only a string has;
  otherwise it parses the whole text and calls the callback.\<close>

definition typeWriter :: "host \<Rightarrow> jsval \<Rightarrow> exn + unit" where
  "typeWriter h text =
     (if gt_zero h (field text ''length'') then
        (case text of
           JStr s \<Rightarrow> andThen (marked_parse h (JStr (take 1 s))) (\<lambda>m. Inr ())
         | _ \<Rightarrow> Inl TypeError)
      else andThen (marked_parse h text) (\<lambda>m. Inr ()))"

text \<open>\<^verbatim>\<open>{ ...responseData, content: null }\<close>: the own enumerable properties of an object,
  the indexed elements of an array or a string, none of another value.\<close>

fun spread :: "jsval \<Rightarrow> (string \<times> jsval) list" where
  "spread (JObj kvs) = kvs"
| "spread (JArr xs) = map (\<lambda>i. (dec i, xs ! i)) [0..<length xs]"
| "spread (JStr s) = map (\<lambda>i. (dec i, JStr [s ! i])) [0..<length s]"
| "spread v = []"

definition dataForRender :: "jsval \<Rightarrow> jsval" where
  "dataForRender responseData = JObj ((''content'', JNull) # spread responseData)"

definition complexHtml :: "host \<Rightarrow> jsval \<Rightarrow> exn + string" where
  "complexHtml h responseData =
     (let type = field responseData ''type'' in
      if strict_eq type (JStr ''tutorial'') then
        renderTutorialResponse h (dataForRender responseData)
      else if strict_eq type (JStr ''tutorial_clarify'') then
        renderTutorialClarifyResponse h (dataForRender responseData)
      else if strict_eq type (JStr ''capabilities'') then
        renderCapabilitiesResponse h (dataForRender responseData)
      else renderRegularResponse h (dataForRender responseData))"

text \<open>What an assistant bubble receives.\<close>

definition assistant_parts :: "host \<Rightarrow> jsval \<Rightarrow> jsval \<Rightarrow> bool \<Rightarrow> exn + part list" where
  "assistant_parts h text responseData animate =
     andThen (if truthy responseData
              then andThen (complexHtml h responseData) (\<lambda>html.
                     Inr (js_or (field responseData ''content'') (JStr []), html))
              else Inr (text, [])) (\<lambda>(textToType, html).
     if animate then
       (if truthy textToType then
          andThen (typeWriter h textToType) (\<lambda>u. Inr [TypeWriter textToType html])
        else if html \<noteq> [] then Inr [FadeIn html]
        else Inr [])
     else
       andThen (if truthy textToType
                then andThen (marked_parse h textToType) (\<lambda>m. Inr [Markdown m])
                else Inr []) (\<lambda>prose.
       Inr (prose @ (if html \<noteq> [] then [Complex html] else []))))"

text \<open>\<^verbatim>\<open>addMessage(text, isUser, responseData, animate)\<close>. The bubble is in the page
  before its content is computed, so it stays, empty, when that throws.\<close>

definition addMessage :: "host \<Rightarrow> jsval \<Rightarrow> bool \<Rightarrow> jsval \<Rightarrow> bool \<Rightarrow> step" where
  "addMessage h text isUser responseData animate \<sigma> =
     (let \<sigma>1 = \<sigma>\<lparr>chatHistory_active := True,
                 welcomeContent_hidden := (chatHistory \<sigma> = [] \<or> welcomeContent_hidden \<sigma>),
                 actions_hidden := (chatHistory \<sigma> = [] \<or> actions_hidden \<sigma>)\<rparr>
      in if isUser then (None, \<sigma>1\<lparr>chatHistory := chatHistory \<sigma> @ [UserMessage text]\<rparr>)
         else
           (case assistant_parts h text responseData animate of
              Inl e \<Rightarrow> (Some e, \<sigma>1\<lparr>chatHistory := chatHistory \<sigma> @ [AssistantMessage []]\<rparr>)
            | Inr parts \<Rightarrow>
                (None, \<sigma>1\<lparr>chatHistory := chatHistory \<sigma> @ [AssistantMessage parts]\<rparr>)))"

definition showTypingIndicator :: "client \<Rightarrow> client" where
  "showTypingIndicator \<sigma> = \<sigma>\<lparr>chatHistory := chatHistory \<sigma> @ [TypingIndicator]\<rparr>"

definition removeTypingIndicator :: "client \<Rightarrow> client" where
  "removeTypingIndicator \<sigma> = \<sigma>\<lparr>chatHistory := remove1 TypingIndicator (chatHistory \<sigma>)\<rparr>"

section \<open>Sessions\<close>

text \<open>
  Execution is single-threaded and suspends only at an \<^verbatim>\<open>await\<close>. Each handler is
  modelled as run to its end, the answers to its own requests being arguments.
  \<^verbatim>\<open>fetchSessions()\<close> is called without \<^verbatim>\<open>await\<close> by the other handlers: such a call
  sends its request (\<open>fetchSessions_call\<close>), and what follows the answer is a later event
  (\<open>fetchSessions_resume\<close>). The \<^verbatim>\<open>selectSession\<close> that a restoration starts is run to its
  end inside \<open>fetchSessions_resume\<close>: what remains of \<^verbatim>\<open>fetchSessions\<close> after the call only
  clears \<^verbatim>\<open>isFirstLoad\<close>, which \<^verbatim>\<open>selectSession\<close> does not read. Interleavings of two
  handlers are not modelled.
\<close>

definition fetchSessions_call :: "client \<Rightarrow> client" where
  "fetchSessions_call \<sigma> = \<sigma>\<lparr>requests := requests \<sigma> @ [ListSessions USER_ID]\<rparr>"

fun traverse :: "('a \<Rightarrow> exn + 'b) \<Rightarrow> 'a list \<Rightarrow> exn + 'b list" where
  "traverse f [] = Inr []"
| "traverse f (x # xs) = andThen (f x) (\<lambda>y. andThen (traverse f xs) (\<lambda>ys. Inr (y # ys)))"

definition session_item :: "jsval \<Rightarrow> jsval \<Rightarrow> exn + item" where
  "session_item current session =
     andThen (js_get session ''session_id'') (\<lambda>session_id.
     Inr \<lparr> item_session_id = session_id, item_title = field session ''title'',
           item_text = js_or (field session ''title'') (JStr ''Untitled Chat''),
           item_active = strict_eq session_id current \<rparr>)"

text \<open>\<^verbatim>\<open>displaySessions(sessions)\<close>. The side bar is emptied first and the new section is
  attached last, so it stays empty when an entry throws.\<close>

definition displaySessions :: "jsval \<Rightarrow> step" where
  "displaySessions sessions \<sigma> =
     (if \<not> truthy sessions \<or> strict_eq (field sessions ''length'') (JNum 0)
      then (None, \<sigma>\<lparr>sidebarContent := NoChats\<rparr>)
      else
        (case andThen (forEach_receiver sessions) (traverse (session_item (currentSessionId \<sigma>))) of
           Inl e \<Rightarrow> (Some e, \<sigma>\<lparr>sidebarContent := Blank\<rparr>)
         | Inr items \<Rightarrow> (None, \<sigma>\<lparr>sidebarContent := RecentChats items\<rparr>)))"

text \<open>\<^verbatim>\<open>newChat()\<close>.\<close>

definition newChat :: "client \<Rightarrow> client" where
  "newChat \<sigma> =
     fetchSessions_call
       (\<sigma>\<lparr>currentSessionId := JNull, sessionStorage := None, chatHistory := [],
          chatStateHistory := JArr [], lastTutorialSteps := [], chatHistory_active := False,
          welcomeContent_hidden := False, actions_hidden := False, messageInput := []\<rparr>)"

text \<open>One entry of a loaded history, as the \<^verbatim>\<open>forEach\<close> of \<^verbatim>\<open>selectSession\<close> replays it.\<close>

definition str_of :: "jsval \<Rightarrow> string" where
  "str_of v = (case v of JStr s \<Rightarrow> s | _ \<Rightarrow> [])"

definition replay :: "host \<Rightarrow> jsval \<Rightarrow> step" where
  "replay h msg \<sigma> =
     (if typeof msg = ''string'' then
        (if startsWith (str_of msg) ''User: '' then
           addMessage h (JStr (replace (str_of msg) ''User: '' [])) True JNull False \<sigma>
         else if startsWith (str_of msg) ''Assistant: '' then
           addMessage h (JStr (replace (str_of msg) ''Assistant: '' [])) False JNull False \<sigma>
         else (None, \<sigma>))
      else if typeof msg = ''object'' \<and> msg \<noteq> JNull then
        (if strict_eq (field msg ''role'') (JStr ''user'') then
           addMessage h (field msg ''content'') True JNull False \<sigma>
         else if strict_eq (field msg ''role'') (JStr ''assistant'') then
           addMessage h (JStr []) False
             (js_or (field msg ''data'') (JObj [(''content'', field msg ''content'')])) False \<sigma>
         else (None, \<sigma>))
      else (None, \<sigma>))"

text \<open>The \<^verbatim>\<open>try\<close> block of \<^verbatim>\<open>selectSession\<close>, given the answer to
  \<^verbatim>\<open>GET /sessions/{id}\<close>.\<close>

definition selectSession_try :: "host \<Rightarrow> response \<Rightarrow> step" where
  "selectSession_try h detail \<sigma> =
     (case detail of
        Rejected \<Rightarrow> (Some FetchFailed, \<sigma>)
      | Response status body \<Rightarrow>
          if \<not> ok status then (Some (Error ''Failed to load session''), \<sigma>)
          else
            (case body of
               None \<Rightarrow> (Some SyntaxError, \<sigma>)
             | Some data \<Rightarrow>
                 (let \<sigma>1 = \<sigma>\<lparr>chatHistory := []\<rparr> in
                  case js_get data ''history'' of
                    Inl e \<Rightarrow> (Some e, \<sigma>1)
                  | Inr history \<Rightarrow>
                      (let \<sigma>2 = \<sigma>1\<lparr>chatStateHistory := js_or history (JArr []),
                                      lastTutorialSteps := []\<rparr>
                       in if gt_zero h (field (chatStateHistory \<sigma>2) ''length'') then
                            (let \<sigma>3 = \<sigma>2\<lparr>welcomeContent_hidden := True, actions_hidden := True,
                                            chatHistory_active := True\<rparr>
                             in case forEach_receiver (chatStateHistory \<sigma>3) of
                                  Inl e \<Rightarrow> (Some e, \<sigma>3)
                                | Inr msgs \<Rightarrow> forEach_step (replay h) msgs \<sigma>3)
                          else
                            (None, \<sigma>2\<lparr>welcomeContent_hidden := False, actions_hidden := False,
                                        chatHistory_active := False\<rparr>)))))"

text \<open>\<^verbatim>\<open>selectSession(sessionId)\<close>.\<close>

definition selectSession :: "host \<Rightarrow> jsval \<Rightarrow> response \<Rightarrow> client \<Rightarrow> client" where
  "selectSession h sessionId detail \<sigma> =
     (if strict_eq (currentSessionId \<sigma>) sessionId then \<sigma>
      else
        (let \<sigma>1 = \<sigma>\<lparr>currentSessionId := sessionId,
                    sessionStorage := Some (to_string sessionId)\<rparr>;
             \<sigma>2 = fetchSessions_call \<sigma>1;
             \<sigma>3 = \<sigma>2\<lparr>requests := requests \<sigma>2 @ [GetSession (to_string sessionId)]\<rparr>
         in catch_log ''Error selecting session:'' (selectSession_try h detail) \<sigma>3))"

text \<open>\<^verbatim>\<open>data.sessions.some((s) => s.session_id === activeSessionId)\<close>: only an array has
  \<^verbatim>\<open>some\<close>; the search stops at the first match.\<close>

fun some_session :: "jsval list \<Rightarrow> string \<Rightarrow> exn + bool" where
  "some_session [] activeSessionId = Inr False"
| "some_session (s # ss) activeSessionId =
     andThen (js_get s ''session_id'') (\<lambda>session_id.
       if strict_eq session_id (JStr activeSessionId) then Inr True
       else some_session ss activeSessionId)"

definition sessionExists :: "jsval \<Rightarrow> string \<Rightarrow> exn + bool" where
  "sessionExists sessions activeSessionId =
     (case sessions of JArr ss \<Rightarrow> some_session ss activeSessionId | _ \<Rightarrow> Inl TypeError)"

text \<open>The restoration logic of \<^verbatim>\<open>fetchSessions\<close>, run while \<^verbatim>\<open>isFirstLoad\<close> holds.
  \<^verbatim>\<open>sessionStorage.getItem\<close> gives \<^verbatim>\<open>null\<close> for an absent key, and the empty string is
  falsy as well.\<close>

definition restore :: "host \<Rightarrow> jsval \<Rightarrow> response \<Rightarrow> step" where
  "restore h sessions detail \<sigma> =
     (case sessionStorage \<sigma> of
        None \<Rightarrow> (None, newChat \<sigma>)
      | Some activeSessionId \<Rightarrow>
          if activeSessionId = [] then (None, newChat \<sigma>)
          else
            (case sessionExists sessions activeSessionId of
               Inl e \<Rightarrow> (Some e, \<sigma>)
             | Inr True \<Rightarrow> (None, selectSession h (JStr activeSessionId) detail \<sigma>)
             | Inr False \<Rightarrow> (None, newChat (\<sigma>\<lparr>sessionStorage := None\<rparr>))))"

definition fetchSessions_try :: "host \<Rightarrow> response \<Rightarrow> response \<Rightarrow> step" where
  "fetchSessions_try h list detail \<sigma> =
     (case list of
        Rejected \<Rightarrow> (Some FetchFailed, \<sigma>)
      | Response status None \<Rightarrow> (Some SyntaxError, \<sigma>)
      | Response status (Some data) \<Rightarrow>
          (case js_get data ''sessions'' of
             Inl e \<Rightarrow> (Some e, \<sigma>)
           | Inr sessions \<Rightarrow>
               seq (displaySessions sessions)
                 (\<lambda>\<sigma>. if isFirstLoad \<sigma>
                      then seq (restore h sessions detail) (lift (\<lambda>\<sigma>. \<sigma>\<lparr>isFirstLoad := False\<rparr>)) \<sigma>
                      else (None, \<sigma>)) \<sigma>))"

text \<open>What \<^verbatim>\<open>fetchSessions\<close> does once \<^verbatim>\<open>GET /sessions\<close> is answered, and the whole of
  it. \<open>detail\<close> answers the request of the \<^verbatim>\<open>selectSession\<close> that a restoration makes.\<close>

definition fetchSessions_resume :: "host \<Rightarrow> response \<Rightarrow> response \<Rightarrow> client \<Rightarrow> client" where
  "fetchSessions_resume h list detail \<sigma> =
     catch_log ''Error fetching sessions:'' (fetchSessions_try h list detail) \<sigma>"

definition fetchSessions :: "host \<Rightarrow> response \<Rightarrow> response \<Rightarrow> client \<Rightarrow> client" where
  "fetchSessions h list detail \<sigma> = fetchSessions_resume h list detail (fetchSessions_call \<sigma>)"

text \<open>Deleting and renaming.\<close>

definition deleteSession :: "jsval \<Rightarrow> client \<Rightarrow> client" where
  "deleteSession sessionId \<sigma> = \<sigma>\<lparr>sessionToDelete := sessionId, confirmModal_active := True\<rparr>"

definition closeConfirmModal :: "client \<Rightarrow> client" where
  "closeConfirmModal \<sigma> = \<sigma>\<lparr>confirmModal_active := False, sessionToDelete := JNull\<rparr>"

definition confirmDeleteBtn_onclick :: "response \<Rightarrow> client \<Rightarrow> client" where
  "confirmDeleteBtn_onclick answer \<sigma> =
     (if \<not> truthy (sessionToDelete \<sigma>) then \<sigma>
      else
        (let sessionId = sessionToDelete \<sigma>;
             \<sigma>1 = closeConfirmModal \<sigma>;
             \<sigma>2 = \<sigma>1\<lparr>requests := requests \<sigma>1 @ [DeleteSession (to_string sessionId)]\<rparr>
         in case answer of
              Rejected \<Rightarrow> \<sigma>2\<lparr>console := console \<sigma>2 @ [(''Error deleting session:'', FetchFailed)]\<rparr>
            | Response status body \<Rightarrow>
                if ok status then
                  (if strict_eq (currentSessionId \<sigma>2) sessionId
                   then newChat (\<sigma>2\<lparr>currentSessionId := JNull\<rparr>)
                   else fetchSessions_call \<sigma>2)
                else \<sigma>2))"

text \<open>\<^verbatim>\<open>renameSession(sessionId, currentTitle)\<close>; \<open>entered\<close> is what \<^verbatim>\<open>prompt\<close> returns,
  \<open>None\<close> for \<^verbatim>\<open>null\<close>.\<close>

definition renameSession :: "jsval \<Rightarrow> jsval \<Rightarrow> string option \<Rightarrow> response \<Rightarrow> client \<Rightarrow> client" where
  "renameSession sessionId currentTitle entered answer \<sigma> =
     (case entered of
        None \<Rightarrow> \<sigma>
      | Some newTitle \<Rightarrow>
          if newTitle = [] \<or> strict_eq (JStr newTitle) currentTitle then \<sigma>
          else
            (let \<sigma>1 = \<sigma>\<lparr>requests := requests \<sigma> @ [RenameSession (to_string sessionId) newTitle]\<rparr>
             in case answer of
                  Rejected \<Rightarrow>
                    \<sigma>1\<lparr>console := console \<sigma>1 @ [(''Error renaming session:'', FetchFailed)]\<rparr>
                | Response status body \<Rightarrow> if ok status then fetchSessions_call \<sigma>1 else \<sigma>1))"

section \<open>sendMessage\<close>

text \<open>Lazy session creation: the first statement of the \<^verbatim>\<open>try\<close> block.
  \<open>session_id_of\<close> is \<^verbatim>\<open>sessData.session_id\<close> for the answer to \<^verbatim>\<open>POST /sessions\<close>: the
  request is rejected, the body does not parse, or the property is read. The status is
  not looked at.\<close>

definition session_id_of :: "response \<Rightarrow> exn + jsval" where
  "session_id_of created =
     (case created of
        Rejected \<Rightarrow> Inl FetchFailed
      | Response status None \<Rightarrow> Inl SyntaxError
      | Response status (Some sessData) \<Rightarrow> js_get sessData ''session_id'')"

definition create_session :: "response \<Rightarrow> step" where
  "create_session created \<sigma> =
     (if \<not> truthy (currentSessionId \<sigma>) then
        (let \<sigma>1 = \<sigma>\<lparr>requests := requests \<sigma> @ [CreateSession USER_ID LICENSE_ID]\<rparr> in
         case session_id_of created of
           Inl e \<Rightarrow> (Some e, \<sigma>1)
         | Inr session_id \<Rightarrow>
             (None, \<sigma>1\<lparr>currentSessionId := session_id,
                        sessionStorage := Some (to_string session_id)\<rparr>))
      else (None, \<sigma>))"

text \<open>\<^verbatim>\<open>lastTutorialSteps\<close> is updated if the backend returned steps.\<close>

definition update_lastTutorialSteps :: "jsval \<Rightarrow> step" where
  "update_lastTutorialSteps data \<sigma> =
     (case js_get data ''type'' of
        Inl e \<Rightarrow> (Some e, \<sigma>)
      | Inr type \<Rightarrow>
          if strict_eq type (JStr ''tutorial'') \<and> isArray (field data ''steps'')
          then (None, \<sigma>\<lparr>lastTutorialSteps := elements (field data ''steps'')\<rparr>)
          else (None, \<sigma>))"

text \<open>\<^verbatim>\<open>assistantText\<close>, trimmed. \<^verbatim>\<open>+\<close> with the string \<^verbatim>\<open>" "\<close> concatenates; only a
  string has \<^verbatim>\<open>trim\<close>.\<close>

definition trim_call :: "jsval \<Rightarrow> exn + string" where
  "trim_call v = (case v of JStr s \<Rightarrow> Inr (js_trim s) | _ \<Rightarrow> Inl TypeError)"

definition assistantText :: "jsval \<Rightarrow> exn + string" where
  "assistantText data =
     andThen (js_get data ''type'') (\<lambda>type.
     trim_call
       (if strict_eq type (JStr ''tutorial'') then
          JStr (to_string (js_or (field data ''content'') (JStr [])) @ '' ''
                @ to_string (js_or (field data ''summary'') (JStr [])))
        else if strict_eq type (JStr ''tutorial_clarify'') then
          (if truthy (field data ''clarified_step'')
           then js_or (field (field data ''clarified_step'') ''clarified'') (JStr [])
           else js_or (field data ''content'') (JStr []))
        else js_or (field data ''content'') (JStr [])))"

text \<open>\<^verbatim>\<open>chatStateHistory.push(v)\<close>: only an array has \<^verbatim>\<open>push\<close>.\<close>

definition push :: "jsval \<Rightarrow> step" where
  "push v \<sigma> =
     (case chatStateHistory \<sigma> of
        JArr xs \<Rightarrow> (None, \<sigma>\<lparr>chatStateHistory := JArr (xs @ [v])\<rparr>)
      | _ \<Rightarrow> (Some TypeError, \<sigma>))"

definition append_assistantText :: "jsval \<Rightarrow> step" where
  "append_assistantText data \<sigma> =
     (case assistantText data of
        Inl e \<Rightarrow> (Some e, \<sigma>)
      | Inr text \<Rightarrow> if text \<noteq> [] then push (JStr (''Assistant: '' @ text)) \<sigma> else (None, \<sigma>))"

text \<open>
  The synchronisation with \<^verbatim>\<open>data.conversation_history\<close>: the local array is emptied
  (\<^verbatim>\<open>length = 0\<close>) and the items are pushed one by one. The local history is an array
  here, since the push of the user entry went through.
\<close>

definition sync_history :: "jsval \<Rightarrow> client \<Rightarrow> client" where
  "sync_history data \<sigma> =
     (let conversation_history = field data ''conversation_history'' in
      if isArray conversation_history then
        (if length (elements conversation_history) \<ge> length (elements (chatStateHistory \<sigma>))
         then \<sigma>\<lparr>chatStateHistory :=
                  JArr (foldl (\<lambda>pushed item. pushed @ [item]) [] (elements conversation_history))\<rparr>
         else \<sigma>)
      else \<sigma>)"

text \<open>After the first message the session list is refreshed, to update the title.\<close>

definition refresh_sessions :: "client \<Rightarrow> client" where
  "refresh_sessions \<sigma> =
     (if length (elements (chatStateHistory \<sigma>)) \<le> 2 then fetchSessions_call \<sigma> else \<sigma>)"

text \<open>What follows \<^verbatim>\<open>const data = await response.json()\<close>.\<close>

definition process_reply :: "host \<Rightarrow> jsval \<Rightarrow> step" where
  "process_reply h data =
     seq (addMessage h (JStr []) False data True)
    (seq (update_lastTutorialSteps data)
    (seq (append_assistantText data)
         (lift (\<lambda>\<sigma>. refresh_sessions (sync_history data \<sigma>)))))"

text \<open>The chat request and its answer. The typing indicator is removed once \<^verbatim>\<open>fetch\<close>
  has resolved.\<close>

definition chat :: "host \<Rightarrow> string \<Rightarrow> response \<Rightarrow> step" where
  "chat h message answer \<sigma> =
     (let \<sigma>1 = \<sigma>\<lparr>requests := requests \<sigma> @ [Chat message (currentSessionId \<sigma>) (lastTutorialSteps \<sigma>)]\<rparr>
      in case answer of
           Rejected \<Rightarrow> (Some FetchFailed, \<sigma>1)
         | Response status body \<Rightarrow>
             (let \<sigma>2 = removeTypingIndicator \<sigma>1 in
              if \<not> ok status then (Some (Error (''HTTP error '' @ dec status)), \<sigma>2)
              else
                (case body of
                   None \<Rightarrow> (Some SyntaxError, \<sigma>2)
                 | Some data \<Rightarrow> process_reply h data \<sigma>2)))"

definition send_try :: "host \<Rightarrow> string \<Rightarrow> response \<Rightarrow> response \<Rightarrow> step" where
  "send_try h message created answer = seq (create_session created) (chat h message answer)"

definition send_error :: string where
  "send_error = ''Sorry, something went wrong. Try again.''"

text \<open>What precedes the \<^verbatim>\<open>try\<close> block: the user bubble and the user entry of the local
  history, then the input field is emptied, the send button disabled and the typing
  indicator shown. An exception here is not inside the \<^verbatim>\<open>try\<close> block.\<close>

definition send_begin :: "host \<Rightarrow> string \<Rightarrow> step" where
  "send_begin h message =
     seq (addMessage h (JStr message) True JNull True)
    (seq (push (JStr (''User: '' @ message)))
         (lift (\<lambda>\<sigma>. showTypingIndicator (\<sigma>\<lparr>messageInput := [], sendBtn_disabled := True\<rparr>))))"

text \<open>The \<^verbatim>\<open>catch\<close> block, which can throw itself since it renders a message.\<close>

definition send_catch :: "host \<Rightarrow> exn \<Rightarrow> step" where
  "send_catch h err \<sigma> =
     (let \<sigma>1 = removeTypingIndicator \<sigma>;
          \<sigma>2 = \<sigma>1\<lparr>console := console \<sigma>1 @ [(''Send error:'', err)]\<rparr>
      in addMessage h (JStr send_error) False JNull True \<sigma>2)"

text \<open>How the \<^verbatim>\<open>try\<close> statement ends: the \<^verbatim>\<open>catch\<close> block if the \<^verbatim>\<open>try\<close> block threw,
  and the \<^verbatim>\<open>finally\<close> block, which enables the send button again.\<close>

definition send_end :: "host \<Rightarrow> exn option \<times> client \<Rightarrow> client" where
  "send_end h tried =
     (case tried of
        (None, \<sigma>3) \<Rightarrow> \<sigma>3\<lparr>sendBtn_disabled := False\<rparr>
      | (Some err, \<sigma>3) \<Rightarrow>
          (case send_catch h err \<sigma>3 of
             (None, \<sigma>4) \<Rightarrow> \<sigma>4\<lparr>sendBtn_disabled := False\<rparr>
           | (Some e, \<sigma>4) \<Rightarrow> \<sigma>4\<lparr>sendBtn_disabled := False, unhandled := unhandled \<sigma>4 @ [e]\<rparr>))"

text \<open>
  \<^verbatim>\<open>sendMessage()\<close>, with the answers to \<^verbatim>\<open>POST /sessions\<close> (read only when a session
  is created) and to \<^verbatim>\<open>POST /chat\<close>.
\<close>

definition sendMessage :: "host \<Rightarrow> response \<Rightarrow> response \<Rightarrow> client \<Rightarrow> client" where
  "sendMessage h created answer \<sigma> =
     (let message = js_trim (messageInput \<sigma>) in
      if message = [] then \<sigma>
      else
        (case send_begin h message \<sigma> of
           (Some e, \<sigma>1) \<Rightarrow> \<sigma>1\<lparr>unhandled := unhandled \<sigma>1 @ [e]\<rparr>
         | (None, \<sigma>2) \<Rightarrow> send_end h (send_try h message created answer \<sigma>2)))"

section \<open>The reconciliation as the specification words it\<close>

text \<open>
  Following the words of the specification (4.2 and 8), not the code: the reconciled
  history is the server's when the server's is at least as long as the local one, and the
  unchanged local history otherwise; the local history is the one with the entry of the
  derived assistant text, unless that text is empty. The theorems below compare these with
  what \<open>sendMessage\<close> computes.
\<close>

definition reconciled :: "jsval list \<Rightarrow> jsval \<Rightarrow> jsval list" where
  "reconciled local server =
     (if isArray server \<and> length local \<le> length (elements server) then elements server
      else local)"

definition with_assistant :: "jsval list \<Rightarrow> string \<Rightarrow> jsval list" where
  "with_assistant local text =
     local @ (if text \<noteq> [] then [JStr (''Assistant: '' @ text)] else [])"

section \<open>Landing state and history entries, as the specification words them\<close>

text \<open>
  The landing state of 4.1: no active session, no pointer, an empty conversation and an
  empty tutorial cache, the welcome content and the actions shown.
\<close>

definition landing :: "client \<Rightarrow> bool" where
  "landing \<sigma> =
     (currentSessionId \<sigma> = JNull \<and> sessionStorage \<sigma> = None \<and> chatStateHistory \<sigma> = JArr []
      \<and> lastTutorialSteps \<sigma> = [] \<and> chatHistory \<sigma> = [] \<and> \<not> chatHistory_active \<sigma>
      \<and> \<not> welcomeContent_hidden \<sigma> \<and> \<not> actions_hidden \<sigma>)"

text \<open>
  Following the words of 4.2, not the code: the structured form of a legacy entry, obtained
  by stripping the prefix (\<open>structured\<close>), and the entries of either form (\<open>recognised\<close>);
  any other entry is unknown or malformed.
\<close>

definition structured :: "jsval \<Rightarrow> jsval" where
  "structured msg =
     (case msg of
        JStr s \<Rightarrow>
          if startsWith s ''User: ''
          then JObj [(''role'', JStr ''user''), (''content'', JStr (drop (length ''User: '') s))]
          else if startsWith s ''Assistant: ''
          then JObj [(''role'', JStr ''assistant''),
                     (''content'', JStr (drop (length ''Assistant: '') s))]
          else msg
      | _ \<Rightarrow> msg)"

definition recognised :: "jsval \<Rightarrow> bool" where
  "recognised msg =
     (case msg of
        JStr s \<Rightarrow> startsWith s ''User: '' \<or> startsWith s ''Assistant: ''
      | JObj kvs \<Rightarrow>
          map_of kvs ''role'' = Some (JStr ''user'') \<or> map_of kvs ''role'' = Some (JStr ''assistant'')
      | _ \<Rightarrow> False)"

section \<open>Values used in examples\<close>

text \<open>A host for evaluating the program on concrete inputs: the markdown library accepts
  strings (returned as they are) and throws on anything else, escaping is \<^verbatim>\<open>ToString\<close>
  with \<^verbatim>\<open>null\<close> and \<^verbatim>\<open>undefined\<close> giving the empty text, and a string is positive when
  it is a decimal numeral that is not zero.\<close>

definition example_host :: host where
  "example_host =
     \<lparr> marked_parse = (\<lambda>v. case v of JStr s \<Rightarrow> Inr s | _ \<Rightarrow> Inl LibraryError),
       dom_escape = (\<lambda>v. if v = JUndefined \<or> v = JNull then [] else to_string v),
       origin = ''http://localhost:5000'',
       positive = (\<lambda>s. s \<noteq> [] \<and> list_all (\<lambda>c. c \<in> set ''0123456789'') s
                          \<and> list_ex (\<lambda>c. c \<noteq> CHR ''0'') s) \<rparr>"

text \<open>The user types \<open>text\<close> into the input field: the listener of the \<^verbatim>\<open>input\<close> event
  disables the send button when the trimmed value is empty.\<close>

definition typed :: "string \<Rightarrow> client \<Rightarrow> client" where
  "typed text \<sigma> = \<sigma>\<lparr>messageInput := text, sendBtn_disabled := (js_trim text = [])\<rparr>"

definition created_S1 :: response where
  "created_S1 = Response 200 (Some (JObj [(''session_id'', JStr ''S1'')]))"

text \<open>Replies of the backend: a plain answer that carries the server's history, a tutorial
  with two steps, and the clarification of its first step.\<close>

definition reply_hello :: jsval where
  "reply_hello =
     JObj [(''type'', JStr ''general''), (''content'', JStr ''hello''),
           (''conversation_history'',
              JArr [JObj [(''role'', JStr ''user''), (''content'', JStr ''hi'')],
                    JObj [(''role'', JStr ''assistant''), (''content'', JStr ''hello'')]])]"

definition two_steps :: "jsval list" where
  "two_steps =
     [JObj [(''step_number'', JNum 1), (''text'', JStr ''Open the Regions page'')],
      JObj [(''step_number'', JNum 2), (''text'', JStr ''Click Add''),
            (''image'', JStr ''/static/img/add.png'')]]"

definition tutorial_reply :: jsval where
  "tutorial_reply =
     JObj [(''type'', JStr ''tutorial''), (''content'', JStr ''Here is how''),
           (''summary'', JStr ''done''), (''steps'', JArr two_steps)]"

definition clarify_reply :: jsval where
  "clarify_reply =
     JObj [(''type'', JStr ''tutorial_clarify''),
           (''clarified_step'',
              JObj [(''step_number'', JNum 1), (''clarified'', JStr ''Click the gear icon'')])]"

text \<open>Two clarifications that carry a \<^verbatim>\<open>content\<close>: one whose step has an empty
  \<^verbatim>\<open>clarified\<close>, one without \<^verbatim>\<open>clarified_step\<close>; and a plain answer without history.\<close>

definition clarify_empty :: jsval where
  "clarify_empty =
     JObj [(''type'', JStr ''tutorial_clarify''), (''content'', JStr ''Open the settings page''),
           (''clarified_step'', JObj [(''step_number'', JNum 1), (''clarified'', JStr [])])]"

definition clarify_without_step :: jsval where
  "clarify_without_step =
     JObj [(''type'', JStr ''tutorial_clarify''), (''content'', JStr ''Open the settings page'')]"

definition reply_plain :: jsval where
  "reply_plain = JObj [(''type'', JStr ''general''), (''content'', JStr ''hello'')]"

text \<open>The answers to \<^verbatim>\<open>GET /sessions\<close> and \<^verbatim>\<open>GET /sessions/S1\<close> for one stored session
  whose history has a legacy and a structured entry, and an answer to \<^verbatim>\<open>POST /sessions\<close>
  that carries no id.\<close>

definition legacy_history :: "jsval list" where
  "legacy_history =
     [JStr ''User: hi'', JObj [(''role'', JStr ''assistant''), (''content'', JStr ''hello'')]]"

definition list_S1 :: response where
  "list_S1 =
     Response 200
       (Some (JObj [(''sessions'',
                       JArr [JObj [(''session_id'', JStr ''S1''), (''title'', JStr ''Regions'')]])]))"

definition detail_S1 :: response where
  "detail_S1 = Response 200 (Some (JObj [(''history'', JArr legacy_history)]))"

definition created_nothing :: response where
  "created_nothing = Response 200 (Some (JObj []))"

section \<open>Lemmas on the steps\<close>

lemma foldl_push: "foldl (\<lambda>pushed item. pushed @ [item]) acc xs = acc @ xs"
  by (induction xs arbitrary: acc) simp_all

lemma strict_eq_JStr: "strict_eq v (JStr s) \<longleftrightarrow> v = JStr s"
  by (cases v) auto

lemma js_get_ok: "v \<noteq> JNull \<Longrightarrow> v \<noteq> JUndefined \<Longrightarrow> js_get v k = Inr (field v k)"
  by (cases v) (simp_all add: field_def)

lemma seq_fst:
  "fst (seq f g \<sigma>) = (case fst (f \<sigma>) of None \<Rightarrow> fst (g (snd (f \<sigma>))) | Some e \<Rightarrow> Some e)"
  by (simp add: seq_def split: prod.splits option.splits)

lemma seq_snd:
  "snd (seq f g \<sigma>) = (case fst (f \<sigma>) of None \<Rightarrow> snd (g (snd (f \<sigma>))) | Some e \<Rightarrow> snd (f \<sigma>))"
  by (simp add: seq_def split: prod.splits option.splits)

lemma lift_simps: "fst (lift f \<sigma>) = None" "snd (lift f \<sigma>) = f \<sigma>"
  by (simp_all add: lift_def)

subsection \<open>addMessage\<close>

lemma addMessage_fst:
  "fst (addMessage h text isUser responseData animate \<sigma>) =
     (if isUser then None
      else case assistant_parts h text responseData animate of
             Inl e \<Rightarrow> Some e | Inr parts \<Rightarrow> None)"
  by (simp add: addMessage_def Let_def split: sum.splits)

lemma addMessage_chatHistory:
  "chatHistory (snd (addMessage h text isUser responseData animate \<sigma>)) =
     chatHistory \<sigma> @
       [if isUser then UserMessage text
        else AssistantMessage
               (case assistant_parts h text responseData animate of
                  Inl e \<Rightarrow> [] | Inr parts \<Rightarrow> parts)]"
  by (simp add: addMessage_def Let_def split: sum.splits)

lemma addMessage_frame:
  "chatStateHistory (snd (addMessage h text isUser responseData animate \<sigma>)) = chatStateHistory \<sigma>"
  "lastTutorialSteps (snd (addMessage h text isUser responseData animate \<sigma>)) = lastTutorialSteps \<sigma>"
  "currentSessionId (snd (addMessage h text isUser responseData animate \<sigma>)) = currentSessionId \<sigma>"
  "sessionStorage (snd (addMessage h text isUser responseData animate \<sigma>)) = sessionStorage \<sigma>"
  "requests (snd (addMessage h text isUser responseData animate \<sigma>)) = requests \<sigma>"
  "console (snd (addMessage h text isUser responseData animate \<sigma>)) = console \<sigma>"
  "unhandled (snd (addMessage h text isUser responseData animate \<sigma>)) = unhandled \<sigma>"
  "messageInput (snd (addMessage h text isUser responseData animate \<sigma>)) = messageInput \<sigma>"
  by (simp_all add: addMessage_def Let_def split: sum.splits)

subsection \<open>push\<close>

lemma push_fst:
  "fst (push v \<sigma>) = (if isArray (chatStateHistory \<sigma>) then None else Some TypeError)"
  by (cases "chatStateHistory \<sigma>") (simp_all add: push_def)

lemma push_chatStateHistory:
  "chatStateHistory (snd (push v \<sigma>)) =
     (if isArray (chatStateHistory \<sigma>) then JArr (elements (chatStateHistory \<sigma>) @ [v])
      else chatStateHistory \<sigma>)"
  by (cases "chatStateHistory \<sigma>") (simp_all add: push_def)

lemma push_frame:
  "lastTutorialSteps (snd (push v \<sigma>)) = lastTutorialSteps \<sigma>"
  "currentSessionId (snd (push v \<sigma>)) = currentSessionId \<sigma>"
  "sessionStorage (snd (push v \<sigma>)) = sessionStorage \<sigma>"
  "requests (snd (push v \<sigma>)) = requests \<sigma>"
  "console (snd (push v \<sigma>)) = console \<sigma>"
  "unhandled (snd (push v \<sigma>)) = unhandled \<sigma>"
  "chatHistory (snd (push v \<sigma>)) = chatHistory \<sigma>"
  "messageInput (snd (push v \<sigma>)) = messageInput \<sigma>"
  by (cases "chatStateHistory \<sigma>"; simp add: push_def)+

subsection \<open>create_session\<close>

lemma create_session_fst:
  "fst (create_session created \<sigma>) =
     (if truthy (currentSessionId \<sigma>) then None
      else case session_id_of created of Inl e \<Rightarrow> Some e | Inr session_id \<Rightarrow> None)"
  by (simp add: create_session_def Let_def split: sum.splits)

lemma create_session_fields:
  "currentSessionId (snd (create_session created \<sigma>)) =
     (if truthy (currentSessionId \<sigma>) then currentSessionId \<sigma>
      else case session_id_of created of
             Inl e \<Rightarrow> currentSessionId \<sigma> | Inr session_id \<Rightarrow> session_id)"
  "sessionStorage (snd (create_session created \<sigma>)) =
     (if truthy (currentSessionId \<sigma>) then sessionStorage \<sigma>
      else case session_id_of created of
             Inl e \<Rightarrow> sessionStorage \<sigma> | Inr session_id \<Rightarrow> Some (to_string session_id))"
  "requests (snd (create_session created \<sigma>)) =
     requests \<sigma> @
       (if truthy (currentSessionId \<sigma>) then [] else [CreateSession USER_ID LICENSE_ID])"
  by (simp_all add: create_session_def Let_def split: sum.splits)

lemma create_session_frame:
  "chatStateHistory (snd (create_session created \<sigma>)) = chatStateHistory \<sigma>"
  "lastTutorialSteps (snd (create_session created \<sigma>)) = lastTutorialSteps \<sigma>"
  "console (snd (create_session created \<sigma>)) = console \<sigma>"
  "unhandled (snd (create_session created \<sigma>)) = unhandled \<sigma>"
  "chatHistory (snd (create_session created \<sigma>)) = chatHistory \<sigma>"
  "messageInput (snd (create_session created \<sigma>)) = messageInput \<sigma>"
  by (simp_all add: create_session_def Let_def split: sum.splits)

subsection \<open>update_lastTutorialSteps and append_assistantText\<close>

lemma update_fst:
  "fst (update_lastTutorialSteps data \<sigma>) =
     (case js_get data ''type'' of Inl e \<Rightarrow> Some e | Inr t \<Rightarrow> None)"
  by (simp add: update_lastTutorialSteps_def split: sum.splits)

lemma update_cache:
  "lastTutorialSteps (snd (update_lastTutorialSteps data \<sigma>)) =
     (if strict_eq (field data ''type'') (JStr ''tutorial'') \<and> isArray (field data ''steps'')
      then elements (field data ''steps'') else lastTutorialSteps \<sigma>)"
  by (cases data) (simp_all add: update_lastTutorialSteps_def field_def)

lemma update_frame:
  "chatStateHistory (snd (update_lastTutorialSteps data \<sigma>)) = chatStateHistory \<sigma>"
  "currentSessionId (snd (update_lastTutorialSteps data \<sigma>)) = currentSessionId \<sigma>"
  "sessionStorage (snd (update_lastTutorialSteps data \<sigma>)) = sessionStorage \<sigma>"
  "requests (snd (update_lastTutorialSteps data \<sigma>)) = requests \<sigma>"
  "console (snd (update_lastTutorialSteps data \<sigma>)) = console \<sigma>"
  "unhandled (snd (update_lastTutorialSteps data \<sigma>)) = unhandled \<sigma>"
  "chatHistory (snd (update_lastTutorialSteps data \<sigma>)) = chatHistory \<sigma>"
  "messageInput (snd (update_lastTutorialSteps data \<sigma>)) = messageInput \<sigma>"
  by (simp_all add: update_lastTutorialSteps_def split: sum.splits)

lemma append_fst:
  "fst (append_assistantText data \<sigma>) =
     (case assistantText data of
        Inl e \<Rightarrow> Some e
      | Inr text \<Rightarrow>
          if text \<noteq> [] \<and> \<not> isArray (chatStateHistory \<sigma>) then Some TypeError else None)"
  by (simp add: append_assistantText_def push_fst split: sum.splits)

lemma append_chatStateHistory:
  "chatStateHistory (snd (append_assistantText data \<sigma>)) =
     (case assistantText data of
        Inl e \<Rightarrow> chatStateHistory \<sigma>
      | Inr text \<Rightarrow>
          if text \<noteq> [] \<and> isArray (chatStateHistory \<sigma>)
          then JArr (elements (chatStateHistory \<sigma>) @ [JStr (''Assistant: '' @ text)])
          else chatStateHistory \<sigma>)"
  by (simp add: append_assistantText_def push_chatStateHistory split: sum.splits)

lemma append_frame:
  "lastTutorialSteps (snd (append_assistantText data \<sigma>)) = lastTutorialSteps \<sigma>"
  "currentSessionId (snd (append_assistantText data \<sigma>)) = currentSessionId \<sigma>"
  "sessionStorage (snd (append_assistantText data \<sigma>)) = sessionStorage \<sigma>"
  "requests (snd (append_assistantText data \<sigma>)) = requests \<sigma>"
  "console (snd (append_assistantText data \<sigma>)) = console \<sigma>"
  "unhandled (snd (append_assistantText data \<sigma>)) = unhandled \<sigma>"
  "chatHistory (snd (append_assistantText data \<sigma>)) = chatHistory \<sigma>"
  "messageInput (snd (append_assistantText data \<sigma>)) = messageInput \<sigma>"
  by (simp_all add: append_assistantText_def push_frame split: sum.splits)

lemma assistantText_type: "assistantText data = Inr text \<Longrightarrow> \<exists>type. js_get data ''type'' = Inr type"
  by (auto simp: assistantText_def andThen_def split: sum.splits)

lemmas step_simps =
  seq_fst seq_snd lift_simps addMessage_fst addMessage_chatHistory addMessage_frame
  push_fst push_chatStateHistory push_frame
  create_session_fst create_session_fields create_session_frame
  update_fst update_cache update_frame append_fst append_chatStateHistory append_frame

lemma field_nullish: "js_get v k = Inl e \<Longrightarrow> field v k = JUndefined"
  by (simp add: field_def)

lemma assistantText_Inl: "js_get data ''type'' = Inl e \<Longrightarrow> assistantText data = Inl e"
  by (simp add: assistantText_def andThen_def)

lemma assistantText_tutorial:
  "strict_eq (field data ''type'') (JStr ''tutorial'') \<Longrightarrow> \<exists>text. assistantText data = Inr text"
  by (cases data) (auto simp: assistantText_def andThen_def field_def trim_call_def)

subsection \<open>process_reply\<close>

lemma process_reply_fst:
  "isArray (chatStateHistory \<sigma>) \<Longrightarrow>
   fst (process_reply h data \<sigma>) =
     (case assistant_parts h (JStr []) data True of
        Inl e \<Rightarrow> Some e
      | Inr parts \<Rightarrow> (case assistantText data of Inl e \<Rightarrow> Some e | Inr text \<Rightarrow> None))"
  by (auto simp: process_reply_def step_simps assistantText_Inl
      dest: assistantText_type split: sum.splits)

lemma process_reply_frame:
  "currentSessionId (snd (process_reply h data \<sigma>)) = currentSessionId \<sigma>"
  "sessionStorage (snd (process_reply h data \<sigma>)) = sessionStorage \<sigma>"
  "console (snd (process_reply h data \<sigma>)) = console \<sigma>"
  "unhandled (snd (process_reply h data \<sigma>)) = unhandled \<sigma>"
  "messageInput (snd (process_reply h data \<sigma>)) = messageInput \<sigma>"
  by (simp_all add: process_reply_def step_simps sync_history_def refresh_sessions_def
      fetchSessions_call_def Let_def split: option.splits sum.splits)

lemma process_reply_chatHistory:
  "chatHistory (snd (process_reply h data \<sigma>)) =
     chatHistory \<sigma> @
       [AssistantMessage (case assistant_parts h (JStr []) data True of
                            Inl e \<Rightarrow> [] | Inr parts \<Rightarrow> parts)]"
  by (simp add: process_reply_def step_simps sync_history_def refresh_sessions_def
      fetchSessions_call_def Let_def split: option.splits sum.splits)

lemma process_reply_cache:
  "lastTutorialSteps (snd (process_reply h data \<sigma>)) =
     (if \<not> isl (assistant_parts h (JStr []) data True)
         \<and> strict_eq (field data ''type'') (JStr ''tutorial'') \<and> isArray (field data ''steps'')
      then elements (field data ''steps'') else lastTutorialSteps \<sigma>)"
  by (auto simp: process_reply_def step_simps sync_history_def refresh_sessions_def
      fetchSessions_call_def Let_def field_nullish split: option.splits sum.splits)

lemma process_reply_history:
  "isArray (chatStateHistory \<sigma>) \<Longrightarrow>
   chatStateHistory (snd (process_reply h data \<sigma>)) =
     (case fst (process_reply h data \<sigma>) of
        Some e \<Rightarrow> chatStateHistory \<sigma>
      | None \<Rightarrow>
          JArr (reconciled
                  (with_assistant (elements (chatStateHistory \<sigma>)) (projr (assistantText data)))
                  (field data ''conversation_history'')))"
  by (cases "chatStateHistory \<sigma>")
     (auto simp: process_reply_def step_simps sync_history_def refresh_sessions_def
      fetchSessions_call_def Let_def reconciled_def with_assistant_def foldl_push
      split: option.splits sum.splits)

lemma process_reply_requests:
  "isArray (chatStateHistory \<sigma>) \<Longrightarrow>
   requests (snd (process_reply h data \<sigma>)) =
     requests \<sigma> @
       (if fst (process_reply h data \<sigma>) = None
           \<and> length (reconciled
                        (with_assistant (elements (chatStateHistory \<sigma>)) (projr (assistantText data)))
                        (field data ''conversation_history'')) \<le> 2
        then [ListSessions USER_ID] else [])"
  by (cases "chatStateHistory \<sigma>")
     (auto simp: process_reply_def step_simps sync_history_def refresh_sessions_def
      fetchSessions_call_def Let_def reconciled_def with_assistant_def foldl_push
      split: option.splits sum.splits)

lemma process_reply_fail_cache:
  "isArray (chatStateHistory \<sigma>) \<Longrightarrow> fst (process_reply h data \<sigma>) = Some e \<Longrightarrow>
   lastTutorialSteps (snd (process_reply h data \<sigma>)) = lastTutorialSteps \<sigma>"
  using assistantText_tutorial [of data]
  by (auto simp: process_reply_fst process_reply_cache split: sum.splits)

lemmas reply_simps =
  process_reply_fst process_reply_frame process_reply_chatHistory process_reply_cache
  process_reply_history process_reply_requests


lemmas send_defs =
  sendMessage_def send_begin_def send_end_def send_try_def chat_def process_reply_def
  send_catch_def showTypingIndicator_def removeTypingIndicator_def sync_history_def
  refresh_sessions_def fetchSessions_call_def

subsection \<open>chat and send_try, by the shape of the answers\<close>

lemma chat_Rejected:
  "chat h message Rejected \<sigma> =
     (Some FetchFailed,
      \<sigma>\<lparr>requests := requests \<sigma> @ [Chat message (currentSessionId \<sigma>) (lastTutorialSteps \<sigma>)]\<rparr>)"
  by (simp add: chat_def)

lemma chat_status:
  "\<not> ok status \<Longrightarrow>
   chat h message (Response status body) \<sigma> =
     (Some (Error (''HTTP error '' @ dec status)),
      removeTypingIndicator
        (\<sigma>\<lparr>requests := requests \<sigma> @ [Chat message (currentSessionId \<sigma>) (lastTutorialSteps \<sigma>)]\<rparr>))"
  by (simp add: chat_def Let_def)

lemma chat_unparsed:
  "ok status \<Longrightarrow>
   chat h message (Response status None) \<sigma> =
     (Some SyntaxError,
      removeTypingIndicator
        (\<sigma>\<lparr>requests := requests \<sigma> @ [Chat message (currentSessionId \<sigma>) (lastTutorialSteps \<sigma>)]\<rparr>))"
  by (simp add: chat_def Let_def)

lemma chat_data:
  "ok status \<Longrightarrow>
   chat h message (Response status (Some data)) \<sigma> =
     process_reply h data
       (removeTypingIndicator
          (\<sigma>\<lparr>requests := requests \<sigma> @ [Chat message (currentSessionId \<sigma>) (lastTutorialSteps \<sigma>)]\<rparr>))"
  by (simp add: chat_def Let_def)

text \<open>The answers to a chat request, by shape.\<close>

lemma answer_shapes:
  obtains (rejected) "answer = Rejected"
  | (status) status body where "answer = Response status body" "\<not> ok status"
  | (unparsed) status where "answer = Response status None" "ok status"
  | (data) status data where "answer = Response status (Some data)" "ok status"
proof (cases answer)
  case Rejected
  then show thesis by (rule rejected)
next
  case (Response status body)
  then show thesis
    by (cases "ok status"; cases body) (auto intro: status unparsed data)
qed

lemma send_try_created_fail:
  "\<not> truthy (currentSessionId \<sigma>) \<Longrightarrow> session_id_of created = Inl e \<Longrightarrow>
   send_try h message created answer \<sigma> =
     (Some e, \<sigma>\<lparr>requests := requests \<sigma> @ [CreateSession USER_ID LICENSE_ID]\<rparr>)"
  by (simp add: send_try_def seq_def create_session_def)

lemma send_try_chat:
  "fst (create_session created \<sigma>) = None \<Longrightarrow>
   send_try h message created answer \<sigma> = chat h message answer (snd (create_session created \<sigma>))"
  by (cases "create_session created \<sigma>") (simp add: send_try_def seq_def)

lemma create_session_outcome:
  obtains (fail) e where "\<not> truthy (currentSessionId \<sigma>)" "session_id_of created = Inl e"
  | (ready) "fst (create_session created \<sigma>) = None"
  by (cases "truthy (currentSessionId \<sigma>)"; cases "session_id_of created")
     (auto simp: create_session_fst)

lemmas chat_shapes = chat_Rejected chat_status chat_unparsed chat_data

lemma send_try_frame:
  "console (snd (send_try h message created answer \<sigma>)) = console \<sigma>"
  "unhandled (snd (send_try h message created answer \<sigma>)) = unhandled \<sigma>"
  "messageInput (snd (send_try h message created answer \<sigma>)) = messageInput \<sigma>"
  "currentSessionId (snd (send_try h message created answer \<sigma>)) =
     currentSessionId (snd (create_session created \<sigma>))"
  "sessionStorage (snd (send_try h message created answer \<sigma>)) =
     sessionStorage (snd (create_session created \<sigma>))"
  by (cases rule: create_session_outcome [of \<sigma> created]; cases rule: answer_shapes [of answer];
      simp add: send_try_created_fail send_try_chat chat_shapes removeTypingIndicator_def
        create_session_fields create_session_frame process_reply_frame)+


lemma send_try_fail:
  assumes "isArray (chatStateHistory \<sigma>)" and "fst (send_try h message created answer \<sigma>) = Some e"
  shows "chatStateHistory (snd (send_try h message created answer \<sigma>)) = chatStateHistory \<sigma>"
    and "lastTutorialSteps (snd (send_try h message created answer \<sigma>)) = lastTutorialSteps \<sigma>"
  using assms
  by (cases rule: create_session_outcome [of \<sigma> created]; cases rule: answer_shapes [of answer];
      simp add: send_try_created_fail send_try_chat chat_shapes removeTypingIndicator_def
        create_session_frame process_reply_history process_reply_fail_cache)+

lemma send_try_isArray:
  assumes "isArray (chatStateHistory \<sigma>)"
  shows "isArray (chatStateHistory (snd (send_try h message created answer \<sigma>)))"
  using assms
  by (cases rule: create_session_outcome [of \<sigma> created]; cases rule: answer_shapes [of answer];
      simp add: send_try_created_fail send_try_chat chat_shapes removeTypingIndicator_def
        create_session_frame process_reply_history split: option.splits)

lemma send_try_cache:
  "lastTutorialSteps (snd (send_try h message created answer \<sigma>)) = lastTutorialSteps \<sigma> \<or>
   (\<exists>status data. answer = Response status (Some data)
      \<and> strict_eq (field data ''type'') (JStr ''tutorial'') \<and> isArray (field data ''steps'')
      \<and> lastTutorialSteps (snd (send_try h message created answer \<sigma>)) = elements (field data ''steps''))"
  by (cases rule: create_session_outcome [of \<sigma> created]; cases rule: answer_shapes [of answer];
      simp add: send_try_created_fail send_try_chat chat_shapes removeTypingIndicator_def
        create_session_frame process_reply_cache)

lemma send_try_requests:
  "\<exists>rest. requests (snd (send_try h message created answer \<sigma>)) =
            requests (snd (create_session created \<sigma>)) @
              (if fst (create_session created \<sigma>) = None
               then Chat message (currentSessionId (snd (create_session created \<sigma>)))
                      (lastTutorialSteps \<sigma>) # rest
               else [])
          \<and> set rest \<subseteq> {ListSessions USER_ID}
          \<and> (fst (send_try h message created answer \<sigma>) \<noteq> None \<longrightarrow> rest = [])"
proof (cases rule: create_session_outcome [of \<sigma> created])
  case (fail e)
  then show ?thesis
    by (simp add: send_try_created_fail create_session_fst create_session_fields)
next
  case ready
  show ?thesis
  proof (cases rule: answer_shapes [of answer])
    case (data status data)
    then show ?thesis using ready
      by (simp add: send_try_chat chat_shapes process_reply_def step_simps sync_history_def
          refresh_sessions_def fetchSessions_call_def removeTypingIndicator_def Let_def
          split: option.splits sum.splits)
  qed (use ready in \<open>simp_all add: send_try_chat chat_shapes removeTypingIndicator_def
        create_session_frame\<close>)
qed

subsection \<open>send_begin and send_end\<close>

lemma send_begin_fst:
  "fst (send_begin h message \<sigma>) = (if isArray (chatStateHistory \<sigma>) then None else Some TypeError)"
  by (simp add: send_begin_def step_simps)

lemma send_begin_fields:
  "isArray (chatStateHistory \<sigma>) \<Longrightarrow>
   chatStateHistory (snd (send_begin h message \<sigma>)) =
     JArr (elements (chatStateHistory \<sigma>) @ [JStr (''User: '' @ message)])"
  "isArray (chatStateHistory \<sigma>) \<Longrightarrow>
   chatHistory (snd (send_begin h message \<sigma>)) =
     chatHistory \<sigma> @ [UserMessage (JStr message), TypingIndicator]"
  "lastTutorialSteps (snd (send_begin h message \<sigma>)) = lastTutorialSteps \<sigma>"
  "currentSessionId (snd (send_begin h message \<sigma>)) = currentSessionId \<sigma>"
  "sessionStorage (snd (send_begin h message \<sigma>)) = sessionStorage \<sigma>"
  "requests (snd (send_begin h message \<sigma>)) = requests \<sigma>"
  "console (snd (send_begin h message \<sigma>)) = console \<sigma>"
  "unhandled (snd (send_begin h message \<sigma>)) = unhandled \<sigma>"
  by (simp_all add: send_begin_def step_simps showTypingIndicator_def)

lemma send_end_frame:
  "chatStateHistory (send_end h tried) = chatStateHistory (snd tried)"
  "lastTutorialSteps (send_end h tried) = lastTutorialSteps (snd tried)"
  "currentSessionId (send_end h tried) = currentSessionId (snd tried)"
  "sessionStorage (send_end h tried) = sessionStorage (snd tried)"
  "requests (send_end h tried) = requests (snd tried)"
  by (simp_all add: send_end_def send_catch_def removeTypingIndicator_def split_beta Let_def
      addMessage_frame split: option.splits)

lemma send_end_console:
  "console (send_end h tried) =
     console (snd tried) @ (case fst tried of None \<Rightarrow> [] | Some err \<Rightarrow> [(''Send error:'', err)])"
  by (simp add: send_end_def send_catch_def removeTypingIndicator_def split_beta Let_def
      addMessage_frame split: option.splits)

lemma send_end_chatHistory:
  "chatHistory (send_end h tried) =
     (case fst tried of
        None \<Rightarrow> chatHistory (snd tried)
      | Some err \<Rightarrow>
          remove1 TypingIndicator (chatHistory (snd tried)) @
            [AssistantMessage (case assistant_parts h (JStr send_error) JNull True of
                                 Inl e \<Rightarrow> [] | Inr parts \<Rightarrow> parts)])"
  by (simp add: send_end_def send_catch_def removeTypingIndicator_def split_beta Let_def
      addMessage_chatHistory split: option.splits)

lemma send_end_unhandled:
  "unhandled (send_end h tried) =
     unhandled (snd tried) @
       (case fst tried of
          None \<Rightarrow> []
        | Some err \<Rightarrow>
            (case assistant_parts h (JStr send_error) JNull True of Inl e \<Rightarrow> [e] | Inr parts \<Rightarrow> []))"
  by (simp add: send_end_def send_catch_def removeTypingIndicator_def split_beta Let_def
      addMessage_frame addMessage_fst split: option.splits sum.splits)

lemma send_error_parts:
  "marked_parse h (JStr ''S'') = Inr markup \<Longrightarrow>
   assistant_parts h (JStr send_error) JNull True = Inr [TypeWriter (JStr send_error) []]"
  by (simp add: assistant_parts_def typeWriter_def send_error_def field_def andThen_def)

text \<open>sendMessage on a message that is not empty, the local history being an array.\<close>

lemma sendMessage_sent:
  "js_trim (messageInput \<sigma>) = message \<Longrightarrow> message \<noteq> [] \<Longrightarrow> isArray (chatStateHistory \<sigma>) \<Longrightarrow>
   sendMessage h created answer \<sigma> =
     send_end h (send_try h message created answer (snd (send_begin h message \<sigma>)))"
  using send_begin_fst [of h message \<sigma>]
  by (cases "send_begin h message \<sigma>") (simp add: sendMessage_def)

lemma sendMessage_not_array:
  "\<not> isArray (chatStateHistory \<sigma>) \<Longrightarrow>
   lastTutorialSteps (sendMessage h created answer \<sigma>) = lastTutorialSteps \<sigma> \<and>
   currentSessionId (sendMessage h created answer \<sigma>) = currentSessionId \<sigma> \<and>
   requests (sendMessage h created answer \<sigma>) = requests \<sigma>"
  using send_begin_fst [of h "js_trim (messageInput \<sigma>)" \<sigma>]
    send_begin_fields(3,4,6) [of h "js_trim (messageInput \<sigma>)" \<sigma>]
  by (cases "send_begin h (js_trim (messageInput \<sigma>)) \<sigma>")
     (auto simp add: sendMessage_def Let_def)

subsection \<open>sendMessage\<close>

lemma sendMessage_cache:
  "lastTutorialSteps (sendMessage h created answer \<sigma>) = lastTutorialSteps \<sigma> \<or>
   (\<exists>status data. answer = Response status (Some data)
      \<and> strict_eq (field data ''type'') (JStr ''tutorial'') \<and> isArray (field data ''steps'')
      \<and> lastTutorialSteps (sendMessage h created answer \<sigma>) = elements (field data ''steps''))"
proof (cases "js_trim (messageInput \<sigma>) = []")
  case True
  then show ?thesis by (simp add: sendMessage_def)
next
  case False
  show ?thesis
  proof (cases "isArray (chatStateHistory \<sigma>)")
    case True
    with False show ?thesis
      using send_try_cache [of h "js_trim (messageInput \<sigma>)" created answer
          "snd (send_begin h (js_trim (messageInput \<sigma>)) \<sigma>)"]
      by (simp add: sendMessage_sent send_end_frame send_begin_fields)
  next
    case False
    then show ?thesis by (simp add: sendMessage_not_array)
  qed
qed

lemma sendMessage_isArray:
  assumes "isArray (chatStateHistory \<sigma>)"
  shows "isArray (chatStateHistory (sendMessage h created answer \<sigma>))"
proof (cases "js_trim (messageInput \<sigma>) = []")
  case True
  then show ?thesis using assms by (simp add: sendMessage_def)
next
  case False
  with assms show ?thesis
    by (simp add: sendMessage_sent send_end_frame send_try_isArray send_begin_fields)
qed


lemma send_end_sendBtn: "\<not> sendBtn_disabled (send_end h tried)"
  by (simp add: send_end_def split_beta split: option.splits)

lemma sendMessage_session:
  assumes "isArray (chatStateHistory \<sigma>)" and "js_trim (messageInput \<sigma>) = message" and "message \<noteq> []"
  shows "currentSessionId (sendMessage h created answer \<sigma>) =
           currentSessionId (snd (create_session created \<sigma>))"
    and "sessionStorage (sendMessage h created answer \<sigma>) =
           sessionStorage (snd (create_session created \<sigma>))"
    and "\<exists>rest. requests (sendMessage h created answer \<sigma>) =
            requests (snd (create_session created \<sigma>)) @
              (if fst (create_session created \<sigma>) = None
               then Chat message (currentSessionId (snd (create_session created \<sigma>)))
                      (lastTutorialSteps \<sigma>) # rest
               else [])
          \<and> set rest \<subseteq> {ListSessions USER_ID}"
proof -
  let ?b = "snd (send_begin h message \<sigma>)"
  have eq: "sendMessage h created answer \<sigma> = send_end h (send_try h message created answer ?b)"
    using assms by (simp add: sendMessage_sent)
  show "currentSessionId (sendMessage h created answer \<sigma>) =
           currentSessionId (snd (create_session created \<sigma>))"
    by (simp add: eq send_end_frame send_try_frame create_session_fields send_begin_fields
        split: sum.splits)
  show "sessionStorage (sendMessage h created answer \<sigma>) =
           sessionStorage (snd (create_session created \<sigma>))"
    by (simp add: eq send_end_frame send_try_frame create_session_fields send_begin_fields
        split: sum.splits)
  have same:
    "fst (create_session created ?b) = fst (create_session created \<sigma>)"
    "currentSessionId (snd (create_session created ?b)) =
       currentSessionId (snd (create_session created \<sigma>))"
    "requests (snd (create_session created ?b)) = requests (snd (create_session created \<sigma>))"
    "lastTutorialSteps ?b = lastTutorialSteps \<sigma>"
    by (simp_all add: create_session_fst create_session_fields send_begin_fields
        split: sum.splits)
  from send_try_requests [of h message created answer ?b]
  obtain rest where
    "requests (snd (send_try h message created answer ?b)) =
       requests (snd (create_session created \<sigma>)) @
         (if fst (create_session created \<sigma>) = None
          then Chat message (currentSessionId (snd (create_session created \<sigma>)))
                 (lastTutorialSteps \<sigma>) # rest
          else [])"
    and "set rest \<subseteq> {ListSessions USER_ID}"
    unfolding same by blast
  then show "\<exists>rest. requests (sendMessage h created answer \<sigma>) =
            requests (snd (create_session created \<sigma>)) @
              (if fst (create_session created \<sigma>) = None
               then Chat message (currentSessionId (snd (create_session created \<sigma>)))
                      (lastTutorialSteps \<sigma>) # rest
               else [])
          \<and> set rest \<subseteq> {ListSessions USER_ID}"
    unfolding eq send_end_frame by (intro exI [of _ rest]) simp
qed


lemma send_try_named_failure:
  assumes "answer = Rejected \<or> (\<exists>status body. answer = Response status body \<and> (\<not> ok status \<or> body = None))"
  shows "fst (send_try h message created answer \<sigma>) \<noteq> None
       \<and> (chatHistory (snd (send_try h message created answer \<sigma>)) = chatHistory \<sigma>
          \<or> chatHistory (snd (send_try h message created answer \<sigma>))
              = remove1 TypingIndicator (chatHistory \<sigma>))"
proof (cases rule: create_session_outcome [of \<sigma> created])
  case (fail e)
  then show ?thesis by (simp add: send_try_created_fail)
next
  case ready
  show ?thesis
  proof (cases rule: answer_shapes [of answer])
    case rejected
    then show ?thesis using ready
      by (simp add: send_try_chat chat_shapes create_session_frame)
  next
    case (status status body)
    then show ?thesis using ready
      by (simp add: send_try_chat chat_shapes create_session_frame removeTypingIndicator_def)
  next
    case (unparsed status)
    then show ?thesis using ready
      by (simp add: send_try_chat chat_shapes create_session_frame removeTypingIndicator_def)
  next
    case (data status data)
    with assms show ?thesis by simp
  qed
qed


subsection \<open>Replaying a history\<close>

text \<open>addMessage reads and writes the message pane only: it commutes with a change \<open>u\<close> of
  the rest of the state.\<close>

lemma addMessage_commute:
  assumes "\<And>s a. u (s\<lparr>chatHistory_active := a\<rparr>) = (u s)\<lparr>chatHistory_active := a\<rparr>"
    and "\<And>s a. u (s\<lparr>welcomeContent_hidden := a\<rparr>) = (u s)\<lparr>welcomeContent_hidden := a\<rparr>"
    and "\<And>s a. u (s\<lparr>actions_hidden := a\<rparr>) = (u s)\<lparr>actions_hidden := a\<rparr>"
    and "\<And>s a. u (s\<lparr>chatHistory := a\<rparr>) = (u s)\<lparr>chatHistory := a\<rparr>"
    and "\<And>s. chatHistory (u s) = chatHistory s"
    and "\<And>s. welcomeContent_hidden (u s) = welcomeContent_hidden s"
    and "\<And>s. actions_hidden (u s) = actions_hidden s"
  shows "addMessage h text isUser responseData animate (u \<sigma>)
           = apsnd u (addMessage h text isUser responseData animate \<sigma>)"
  by (simp add: addMessage_def Let_def assms split: sum.splits)

lemma replay_commute:
  assumes "\<And>s a. u (s\<lparr>chatHistory_active := a\<rparr>) = (u s)\<lparr>chatHistory_active := a\<rparr>"
    and "\<And>s a. u (s\<lparr>welcomeContent_hidden := a\<rparr>) = (u s)\<lparr>welcomeContent_hidden := a\<rparr>"
    and "\<And>s a. u (s\<lparr>actions_hidden := a\<rparr>) = (u s)\<lparr>actions_hidden := a\<rparr>"
    and "\<And>s a. u (s\<lparr>chatHistory := a\<rparr>) = (u s)\<lparr>chatHistory := a\<rparr>"
    and "\<And>s. chatHistory (u s) = chatHistory s"
    and "\<And>s. welcomeContent_hidden (u s) = welcomeContent_hidden s"
    and "\<And>s. actions_hidden (u s) = actions_hidden s"
  shows "replay h msg (u \<sigma>) = apsnd u (replay h msg \<sigma>)"
  by (simp add: replay_def addMessage_commute [of u, OF assms])

lemma forEach_replay_commute:
  assumes "\<And>s a. u (s\<lparr>chatHistory_active := a\<rparr>) = (u s)\<lparr>chatHistory_active := a\<rparr>"
    and "\<And>s a. u (s\<lparr>welcomeContent_hidden := a\<rparr>) = (u s)\<lparr>welcomeContent_hidden := a\<rparr>"
    and "\<And>s a. u (s\<lparr>actions_hidden := a\<rparr>) = (u s)\<lparr>actions_hidden := a\<rparr>"
    and "\<And>s a. u (s\<lparr>chatHistory := a\<rparr>) = (u s)\<lparr>chatHistory := a\<rparr>"
    and "\<And>s. chatHistory (u s) = chatHistory s"
    and "\<And>s. welcomeContent_hidden (u s) = welcomeContent_hidden s"
    and "\<And>s. actions_hidden (u s) = actions_hidden s"
  shows "forEach_step (replay h) msgs (u \<sigma>) = apsnd u (forEach_step (replay h) msgs \<sigma>)"
proof (induction msgs arbitrary: \<sigma>)
  case Nil
  show ?case by simp
next
  case (Cons msg msgs)
  show ?case
    by (cases "replay h msg \<sigma>")
       (auto simp: seq_def replay_commute [of u, OF assms] Cons.IH split: option.splits)
qed

lemma replay_frame:
  "chatStateHistory (snd (replay h msg \<sigma>)) = chatStateHistory \<sigma>"
  "lastTutorialSteps (snd (replay h msg \<sigma>)) = lastTutorialSteps \<sigma>"
  "currentSessionId (snd (replay h msg \<sigma>)) = currentSessionId \<sigma>"
  "sessionStorage (snd (replay h msg \<sigma>)) = sessionStorage \<sigma>"
  "requests (snd (replay h msg \<sigma>)) = requests \<sigma>"
  by (simp_all add: replay_def addMessage_frame)

lemma forEach_replay_frame:
  "chatStateHistory (snd (forEach_step (replay h) msgs \<sigma>)) = chatStateHistory \<sigma>
   \<and> lastTutorialSteps (snd (forEach_step (replay h) msgs \<sigma>)) = lastTutorialSteps \<sigma>
   \<and> currentSessionId (snd (forEach_step (replay h) msgs \<sigma>)) = currentSessionId \<sigma>
   \<and> sessionStorage (snd (forEach_step (replay h) msgs \<sigma>)) = sessionStorage \<sigma>
   \<and> requests (snd (forEach_step (replay h) msgs \<sigma>)) = requests \<sigma>"
proof (induction msgs arbitrary: \<sigma>)
  case Nil
  show ?case by simp
next
  case (Cons msg msgs)
  show ?case
    using Cons.IH [of "snd (replay h msg \<sigma>)"]
    by (simp add: seq_snd replay_frame split: option.splits)
qed

subsection \<open>selectSession\<close>

lemma catch_log_frame:
  "chatStateHistory (catch_log label f \<sigma>) = chatStateHistory (snd (f \<sigma>))"
  "lastTutorialSteps (catch_log label f \<sigma>) = lastTutorialSteps (snd (f \<sigma>))"
  "currentSessionId (catch_log label f \<sigma>) = currentSessionId (snd (f \<sigma>))"
  "sessionStorage (catch_log label f \<sigma>) = sessionStorage (snd (f \<sigma>))"
  "chatHistory (catch_log label f \<sigma>) = chatHistory (snd (f \<sigma>))"
  "requests (catch_log label f \<sigma>) = requests (snd (f \<sigma>))"
  "isFirstLoad (catch_log label f \<sigma>) = isFirstLoad (snd (f \<sigma>))"
  "chatHistory_active (catch_log label f \<sigma>) = chatHistory_active (snd (f \<sigma>))"
  "welcomeContent_hidden (catch_log label f \<sigma>) = welcomeContent_hidden (snd (f \<sigma>))"
  "actions_hidden (catch_log label f \<sigma>) = actions_hidden (snd (f \<sigma>))"
  by (simp_all add: catch_log_def split_beta split: option.splits)

text \<open>The state in which the history of a loaded session is replayed.\<close>

lemma selectSession_try_loaded:
  assumes "ok status" and "js_get data ''history'' = Inr history"
  shows "lastTutorialSteps (snd (selectSession_try h (Response status (Some data)) \<sigma>)) = []"
    and "chatStateHistory (snd (selectSession_try h (Response status (Some data)) \<sigma>))
           = js_or history (JArr [])"
  using assms forEach_replay_frame
  by (simp_all add: selectSession_try_def Let_def split: sum.splits)


lemma selectSession_try_commute:
  assumes u: "\<And>s a. u (s\<lparr>chatHistory_active := a\<rparr>) = (u s)\<lparr>chatHistory_active := a\<rparr>"
    "\<And>s a. u (s\<lparr>welcomeContent_hidden := a\<rparr>) = (u s)\<lparr>welcomeContent_hidden := a\<rparr>"
    "\<And>s a. u (s\<lparr>actions_hidden := a\<rparr>) = (u s)\<lparr>actions_hidden := a\<rparr>"
    "\<And>s a. u (s\<lparr>chatHistory := a\<rparr>) = (u s)\<lparr>chatHistory := a\<rparr>"
    "\<And>s. chatHistory (u s) = chatHistory s"
    "\<And>s. welcomeContent_hidden (u s) = welcomeContent_hidden s"
    "\<And>s. actions_hidden (u s) = actions_hidden s"
    and v: "\<And>s a. u (s\<lparr>chatStateHistory := a\<rparr>) = (u s)\<lparr>chatStateHistory := a\<rparr>"
    "\<And>s a. u (s\<lparr>lastTutorialSteps := a\<rparr>) = (u s)\<lparr>lastTutorialSteps := a\<rparr>"
    and w: "\<And>s. chatStateHistory (u s) = chatStateHistory s"
  shows "selectSession_try h detail (u \<sigma>) = apsnd u (selectSession_try h detail \<sigma>)"
  by (simp add: selectSession_try_def Let_def u(1-4) [symmetric] v [symmetric] w
      forEach_replay_commute [of u, OF u] split: response.splits option.splits sum.splits)

lemma selectSession_try_independent:
  "chatStateHistory (snd (selectSession_try h detail (\<sigma>\<lparr>requests := r, sidebarContent := sb\<rparr>)))
     = chatStateHistory (snd (selectSession_try h detail \<sigma>))"
  "lastTutorialSteps (snd (selectSession_try h detail (\<sigma>\<lparr>requests := r, sidebarContent := sb\<rparr>)))
     = lastTutorialSteps (snd (selectSession_try h detail \<sigma>))"
  "chatHistory (snd (selectSession_try h detail (\<sigma>\<lparr>requests := r, sidebarContent := sb\<rparr>)))
     = chatHistory (snd (selectSession_try h detail \<sigma>))"
  "currentSessionId (snd (selectSession_try h detail (\<sigma>\<lparr>requests := r, sidebarContent := sb\<rparr>)))
     = currentSessionId (snd (selectSession_try h detail \<sigma>))"
  "sessionStorage (snd (selectSession_try h detail (\<sigma>\<lparr>requests := r, sidebarContent := sb\<rparr>)))
     = sessionStorage (snd (selectSession_try h detail \<sigma>))"
  by (simp_all add: selectSession_try_commute [of "\<lambda>s. s\<lparr>requests := r, sidebarContent := sb\<rparr>"])

lemma selectSession_independent:
  "chatStateHistory (selectSession h sessionId detail (\<sigma>\<lparr>requests := r, sidebarContent := sb\<rparr>))
     = chatStateHistory (selectSession h sessionId detail \<sigma>)
   \<and> lastTutorialSteps (selectSession h sessionId detail (\<sigma>\<lparr>requests := r, sidebarContent := sb\<rparr>))
     = lastTutorialSteps (selectSession h sessionId detail \<sigma>)
   \<and> chatHistory (selectSession h sessionId detail (\<sigma>\<lparr>requests := r, sidebarContent := sb\<rparr>))
     = chatHistory (selectSession h sessionId detail \<sigma>)
   \<and> currentSessionId (selectSession h sessionId detail (\<sigma>\<lparr>requests := r, sidebarContent := sb\<rparr>))
     = currentSessionId (selectSession h sessionId detail \<sigma>)
   \<and> sessionStorage (selectSession h sessionId detail (\<sigma>\<lparr>requests := r, sidebarContent := sb\<rparr>))
     = sessionStorage (selectSession h sessionId detail \<sigma>)"
proof (cases "strict_eq (currentSessionId \<sigma>) sessionId")
  case True
  then show ?thesis by (simp add: selectSession_def)
next
  case False
  let ?s = "\<sigma>\<lparr>currentSessionId := sessionId, sessionStorage := Some (to_string sessionId)\<rparr>"
  let ?new = "[ListSessions USER_ID, GetSession (to_string sessionId)]"
  have l: "selectSession h sessionId detail (\<sigma>\<lparr>requests := r, sidebarContent := sb\<rparr>)
             = catch_log ''Error selecting session:'' (selectSession_try h detail)
                 (?s\<lparr>requests := r @ ?new, sidebarContent := sb\<rparr>)"
    using False by (cases \<sigma>) (simp add: selectSession_def Let_def fetchSessions_call_def)
  have r: "selectSession h sessionId detail \<sigma>
             = catch_log ''Error selecting session:'' (selectSession_try h detail)
                 (?s\<lparr>requests := requests \<sigma> @ ?new, sidebarContent := sidebarContent \<sigma>\<rparr>)"
    using False by (cases \<sigma>) (simp add: selectSession_def Let_def fetchSessions_call_def)
  show ?thesis
    unfolding l r catch_log_frame selectSession_try_independent by simp
qed

subsection \<open>fetchSessions\<close>

lemma traverse_session_item:
  "list_all (\<lambda>s. s \<noteq> JNull \<and> s \<noteq> JUndefined) sessions \<Longrightarrow>
   \<exists>items. traverse (session_item current) sessions = Inr items"
proof (induction sessions)
  case Nil
  show ?case by simp
next
  case (Cons s sessions)
  then obtain items where items: "traverse (session_item current) sessions = Inr items"
    by auto
  from Cons.prems obtain i where "session_item current s = Inr i"
    by (auto simp: session_item_def andThen_def js_get_ok)
  with items show ?case
    by (simp add: andThen_def)
qed

lemma displaySessions_array:
  "list_all (\<lambda>s. s \<noteq> JNull \<and> s \<noteq> JUndefined) sessions \<Longrightarrow>
   \<exists>sb. displaySessions (JArr sessions) \<sigma> = (None, \<sigma>\<lparr>sidebarContent := sb\<rparr>)"
  using traverse_session_item [of sessions "currentSessionId \<sigma>"]
  by (auto simp: displaySessions_def forEach_receiver_def andThen_def)

lemma some_session_list_ex:
  "list_all (\<lambda>s. s \<noteq> JNull \<and> s \<noteq> JUndefined) sessions \<Longrightarrow>
   some_session sessions pointer
     = Inr (list_ex (\<lambda>s. strict_eq (field s ''session_id'') (JStr pointer)) sessions)"
  by (induction sessions) (simp_all add: andThen_def js_get_ok)


lemma displaySessions_sidebar:
  "\<exists>e sb. displaySessions sessions \<sigma> = (e, \<sigma>\<lparr>sidebarContent := sb\<rparr>)"
  by (auto simp: displaySessions_def split: sum.splits)

lemma landing_initial: "landing (fetchSessions h answer detail (initial None))"
proof -
  let ?c = "fetchSessions_call (initial None)"
  have base: "landing (s\<lparr>console := c\<rparr>) = landing s" "landing (s\<lparr>sidebarContent := sb\<rparr>) = landing s"
    "landing (s\<lparr>isFirstLoad := f\<rparr>) = landing s" for s c sb f
    by (simp_all add: landing_def)
  have l0: "landing ?c"
    by (simp add: landing_def fetchSessions_call_def initial_def)
  have nc: "landing (newChat s)" for s
    by (simp add: landing_def newChat_def fetchSessions_call_def)
  have st: "sessionStorage (?c\<lparr>sidebarContent := sb\<rparr>) = None" "isFirstLoad (?c\<lparr>sidebarContent := sb\<rparr>)" for sb
    by (simp_all add: fetchSessions_call_def initial_def)
  show ?thesis
  proof (cases answer)
    case Rejected
    then show ?thesis using l0
      by (simp add: fetchSessions_def fetchSessions_resume_def fetchSessions_try_def catch_log_def base)
  next
    case (Response status body)
    show ?thesis
    proof (cases body)
      case None
      with Response show ?thesis using l0
        by (simp add: fetchSessions_def fetchSessions_resume_def fetchSessions_try_def catch_log_def base)
    next
      case (Some data)
      show ?thesis
      proof (cases "js_get data ''sessions''")
        case (Inl e)
        with Response Some show ?thesis using l0
          by (simp add: fetchSessions_def fetchSessions_resume_def fetchSessions_try_def catch_log_def base)
      next
        case (Inr sessions)
        from displaySessions_sidebar [of sessions ?c]
        obtain e sb where d: "displaySessions sessions ?c = (e, ?c\<lparr>sidebarContent := sb\<rparr>)"
          by blast
        show ?thesis
          using Response Some Inr d l0 st [of sb]
          by (cases e)
             (simp_all add: fetchSessions_def fetchSessions_resume_def fetchSessions_try_def
                catch_log_def seq_def lift_def restore_def base nc)
      qed
    qed
  qed
qed


subsection \<open>Legacy and structured entries\<close>

lemma replace_prefix: "startsWith s p \<Longrightarrow> replace s p [] = drop (length p) s"
  by (cases s) (auto simp: startsWith_def)

lemma plain_assistant_parts:
  "assistant_parts h (JStr []) (JObj [(''content'', JStr t)]) False
     = assistant_parts h (JStr t) JNull False"
  by (simp add: assistant_parts_def complexHtml_def dataForRender_def field_def
      renderRegularResponse_def renderSuggestedActions_def andThen_def js_or_def Let_def)

lemma replay_structured: "replay h (structured msg) \<sigma> = replay h msg \<sigma>"
proof (cases msg)
  case (JStr s)
  have "\<not> (startsWith s ''User: '' \<and> startsWith s ''Assistant: '')"
    by (cases s) (auto simp: startsWith_def)
  then show ?thesis
    using JStr
    by (auto simp: structured_def replay_def str_of_def field_def js_or_def replace_prefix
        addMessage_def plain_assistant_parts Let_def)
qed (simp_all add: structured_def)

lemma replay_skip: "\<not> recognised msg \<Longrightarrow> replay h msg \<sigma> = (None, \<sigma>)"
  by (cases msg) (auto simp: recognised_def replay_def str_of_def field_def strict_eq_JStr
      split: option.splits)

lemma forEach_replay_structured:
  "forEach_step (replay h) (map structured msgs) \<sigma> = forEach_step (replay h) msgs \<sigma>"
proof (induction msgs arbitrary: \<sigma>)
  case Nil
  show ?case by simp
next
  case (Cons msg msgs)
  show ?case
    by (cases "replay h msg \<sigma>")
       (auto simp: seq_def replay_structured Cons.IH split: option.splits)
qed

lemma forEach_replay_recognised:
  "forEach_step (replay h) (filter recognised msgs) \<sigma> = forEach_step (replay h) msgs \<sigma>"
proof (induction msgs arbitrary: \<sigma>)
  case Nil
  show ?case by simp
next
  case (Cons msg msgs)
  show ?case
    by (cases "recognised msg"; cases "replay h msg \<sigma>")
       (auto simp: seq_def replay_skip Cons.IH split: option.splits)
qed

lemma selectSession_try_structured:
  "chatHistory (snd (selectSession_try h (Response status (Some (JObj [(''history'', JArr (map structured msgs))]))) \<sigma>))
     = chatHistory (snd (selectSession_try h (Response status (Some (JObj [(''history'', JArr msgs)]))) \<sigma>))"
proof (cases "ok status \<and> msgs \<noteq> []")
  case True
  let ?u = "\<lambda>s. s\<lparr>chatStateHistory := JArr (map structured msgs)\<rparr>"
  let ?s = "\<sigma>\<lparr>chatHistory := [], chatStateHistory := JArr msgs, lastTutorialSteps := [],
              welcomeContent_hidden := True, actions_hidden := True, chatHistory_active := True\<rparr>"
  have l: "selectSession_try h (Response status (Some (JObj [(''history'', JArr (map structured msgs))]))) \<sigma>
             = forEach_step (replay h) (map structured msgs) (?u ?s)"
    using True
    by (cases \<sigma>)
       (simp add: selectSession_try_def Let_def js_or_def field_def forEach_receiver_def)
  have r: "selectSession_try h (Response status (Some (JObj [(''history'', JArr msgs)]))) \<sigma>
             = forEach_step (replay h) msgs ?s"
    using True
    by (simp add: selectSession_try_def Let_def js_or_def field_def forEach_receiver_def)
  have c: "forEach_step (replay h) msgs (?u ?s) = apsnd ?u (forEach_step (replay h) msgs ?s)"
    by (rule forEach_replay_commute) simp_all
  have "chatHistory (snd (forEach_step (replay h) (map structured msgs) (?u ?s)))
          = chatHistory (snd (forEach_step (replay h) msgs (?u ?s)))"
    by (simp only: forEach_replay_structured)
  also have "\<dots> = chatHistory (snd (apsnd ?u (forEach_step (replay h) msgs ?s)))"
    by (simp only: c)
  also have "\<dots> = chatHistory (snd (forEach_step (replay h) msgs ?s))"
    by simp
  finally show ?thesis
    unfolding l r .
next
  case False
  then show ?thesis
    by (auto simp add: selectSession_try_def Let_def js_or_def field_def forEach_receiver_def)
qed


section \<open>Properties of the send pipeline\<close>

text \<open>
  C10. A send whose input field holds only white space returns before anything is
  touched: the whole state, which includes the local history, the session id, the session
  pointer, the tutorial cache, the input field and the list of requests made, is the one
  before the call.
\<close>

theorem empty_input_noop:
  "js_trim (messageInput \<sigma>) = [] \<Longrightarrow> sendMessage h created answer \<sigma> = \<sigma>"
  by (simp add: sendMessage_def)

theorem empty_input_noop_witness:
  "js_trim (messageInput (typed ''   '' (initial None))) = [] \<and>
   sendMessage example_host created_S1 created_S1 (typed ''   '' (initial None))
     = typed ''   '' (initial None)"
proof -
  have blank: "js_trim (messageInput (typed ''   '' (initial None))) = []"
    by (simp add: typed_def initial_def js_trim_def is_space_def)
  from blank empty_input_noop [OF blank] show ?thesis by simp
qed

text \<open>
  C1. After a chat round trip that went through (a session exists or was created, the
  answer has a 2xx status and a body that parses, the reply was rendered and its text
  derived), the local history is decided by the reply's \<^verbatim>\<open>conversation_history\<close>: with
  \<open>local\<close> the history before the call followed by the user entry and, if its text is not
  empty, the assistant entry, an array of at least \<open>length local\<close> items replaces the local
  history, item for item and in order; a shorter array, or a value that is not an array,
  leaves \<open>local\<close> as it is.
\<close>

theorem reconciliation_monotonicity:
  assumes "chatStateHistory \<sigma> = JArr old"
    and "js_trim (messageInput \<sigma>) = message" and "message \<noteq> []"
    and "truthy (currentSessionId \<sigma>) \<or> session_id_of created = Inr session_id"
    and "answer = Response status (Some data)" and "ok status"
    and "assistant_parts h (JStr []) data True = Inr parts"
    and "assistantText data = Inr text"
  shows "chatStateHistory (sendMessage h created answer \<sigma>) =
           JArr (reconciled (with_assistant (old @ [JStr (''User: '' @ message)]) text)
                   (field data ''conversation_history''))"
proof -
  from assms(8) obtain type where ty: "js_get data ''type'' = Inr type"
    using assistantText_type by blast
  show ?thesis
  proof (cases "truthy (currentSessionId \<sigma>)")
    case True
    then show ?thesis using assms ty
      by (simp add: send_defs split_beta step_simps foldl_push Let_def reconciled_def
          with_assistant_def)
  next
    case False
    then have "session_id_of created = Inr session_id" using assms(4) by simp
    with False show ?thesis using assms ty
      by (simp add: send_defs split_beta step_simps foldl_push Let_def reconciled_def
          with_assistant_def)
  qed
qed

theorem reconciliation_monotonicity_witness:
  "chatStateHistory
     (sendMessage example_host created_S1 (Response 200 (Some reply_hello))
        (typed ''hi'' (initial None)))
   = JArr [JObj [(''role'', JStr ''user''), (''content'', JStr ''hi'')],
           JObj [(''role'', JStr ''assistant''), (''content'', JStr ''hello'')]]"
proof -
  have 1: "chatStateHistory (typed ''hi'' (initial None)) = JArr []"
    by (simp add: typed_def initial_def)
  have 2: "js_trim (messageInput (typed ''hi'' (initial None))) = ''hi''"
    by code_simp
  have 3: "''hi'' \<noteq> []"
    by simp
  have 4: "truthy (currentSessionId (typed ''hi'' (initial None)))
           \<or> session_id_of created_S1 = Inr (JStr ''S1'')"
    by (simp add: session_id_of_def created_S1_def)
  have 5: "ok 200"
    by (simp add: ok_def)
  have 6: "assistant_parts example_host (JStr []) reply_hello True
           = Inr [TypeWriter (JStr ''hello'') []]"
    by code_simp
  have 7: "assistantText reply_hello = Inr ''hello''"
    by code_simp
  from reconciliation_monotonicity [OF 1 2 3 4 refl 5 6 7]
  show ?thesis
    by (simp add: reply_hello_def field_def reconciled_def with_assistant_def)
qed

text \<open>
  C3. A send changes the tutorial step cache only when the answer is a parsed reply whose
  \<^verbatim>\<open>type\<close> is \<^verbatim>\<open>tutorial\<close> and whose \<^verbatim>\<open>steps\<close> is an array, and then the cache is that
  array; for a reply of type \<^verbatim>\<open>tutorial_clarify\<close>, and for any other, it is left as it
  was. So, when a tutorial reply with steps \<open>steps\<close> has gone through (a session exists or
  was created, the status is 2xx, the reply was rendered) and the next send is answered
  with a \<^verbatim>\<open>tutorial_clarify\<close> reply, the cache holds \<open>steps\<close> after the first send and
  still after the second.
\<close>

theorem tutorial_context_stability:
  "(lastTutorialSteps (sendMessage h created answer \<sigma>) \<noteq> lastTutorialSteps \<sigma> \<longrightarrow>
      (\<exists>status data. answer = Response status (Some data)
         \<and> strict_eq (field data ''type'') (JStr ''tutorial'') \<and> isArray (field data ''steps'')
         \<and> lastTutorialSteps (sendMessage h created answer \<sigma>) = elements (field data ''steps'')))
   \<and> (isArray (chatStateHistory \<sigma>) \<and> js_trim (messageInput \<sigma>) \<noteq> []
        \<and> (truthy (currentSessionId \<sigma>) \<or> \<not> isl (session_id_of created))
        \<and> answer = Response status (Some tutorial) \<and> ok status
        \<and> \<not> isl (assistant_parts h (JStr []) tutorial True)
        \<and> strict_eq (field tutorial ''type'') (JStr ''tutorial'')
        \<and> field tutorial ''steps'' = JArr steps
        \<and> answer' = Response status' (Some clarify)
        \<and> strict_eq (field clarify ''type'') (JStr ''tutorial_clarify'') \<longrightarrow>
      lastTutorialSteps (sendMessage h created answer \<sigma>) = steps
      \<and> lastTutorialSteps
          (sendMessage h created' answer' (typed input (sendMessage h created answer \<sigma>))) = steps)"
proof (intro conjI impI)
  assume "lastTutorialSteps (sendMessage h created answer \<sigma>) \<noteq> lastTutorialSteps \<sigma>"
  with sendMessage_cache [of h created answer \<sigma>]
  show "\<exists>status data. answer = Response status (Some data)
         \<and> strict_eq (field data ''type'') (JStr ''tutorial'') \<and> isArray (field data ''steps'')
         \<and> lastTutorialSteps (sendMessage h created answer \<sigma>) = elements (field data ''steps'')"
    by blast
next
  assume a: "isArray (chatStateHistory \<sigma>) \<and> js_trim (messageInput \<sigma>) \<noteq> []
        \<and> (truthy (currentSessionId \<sigma>) \<or> \<not> isl (session_id_of created))
        \<and> answer = Response status (Some tutorial) \<and> ok status
        \<and> \<not> isl (assistant_parts h (JStr []) tutorial True)
        \<and> strict_eq (field tutorial ''type'') (JStr ''tutorial'')
        \<and> field tutorial ''steps'' = JArr steps
        \<and> answer' = Response status' (Some clarify)
        \<and> strict_eq (field clarify ''type'') (JStr ''tutorial_clarify'')"
  then have ready: "fst (create_session created
                          (snd (send_begin h (js_trim (messageInput \<sigma>)) \<sigma>))) = None"
    by (auto simp: create_session_fst send_begin_fields split: sum.splits)
  from a ready show first: "lastTutorialSteps (sendMessage h created answer \<sigma>) = steps"
    by (simp add: sendMessage_sent send_end_frame send_try_chat chat_shapes process_reply_cache)
  from a have "\<not> strict_eq (field clarify ''type'') (JStr ''tutorial'')"
    by (cases "field clarify ''type''") auto
  with a sendMessage_cache [of h created' answer' "typed input (sendMessage h created answer \<sigma>)"]
  have "lastTutorialSteps
          (sendMessage h created' answer' (typed input (sendMessage h created answer \<sigma>)))
        = lastTutorialSteps (typed input (sendMessage h created answer \<sigma>))"
    by auto
  with first show "lastTutorialSteps
          (sendMessage h created' answer' (typed input (sendMessage h created answer \<sigma>))) = steps"
    by (simp add: typed_def)
qed



theorem tutorial_context_stability_witness:
  "lastTutorialSteps
     (sendMessage example_host created_S1 (Response 200 (Some tutorial_reply))
        (typed ''How to add a new region?'' (initial None))) = two_steps
   \<and> lastTutorialSteps
       (sendMessage example_host created_S1 (Response 200 (Some clarify_reply))
          (typed ''clarify step 1''
             (sendMessage example_host created_S1 (Response 200 (Some tutorial_reply))
                (typed ''How to add a new region?'' (initial None))))) = two_steps"
proof -
  have 1: "isArray (chatStateHistory (typed ''How to add a new region?'' (initial None)))"
    by (simp add: typed_def initial_def)
  have 2: "js_trim (messageInput (typed ''How to add a new region?'' (initial None))) \<noteq> []"
    by code_simp
  have 3: "\<not> isl (session_id_of created_S1)"
    by (simp add: session_id_of_def created_S1_def)
  have 4: "ok 200"
    by (simp add: ok_def)
  have 5: "\<not> isl (assistant_parts example_host (JStr []) tutorial_reply True)"
    by code_simp
  have 6: "strict_eq (field tutorial_reply ''type'') (JStr ''tutorial'')"
    by (simp add: tutorial_reply_def field_def)
  have 7: "field tutorial_reply ''steps'' = JArr two_steps"
    by (simp add: tutorial_reply_def field_def)
  have 8: "strict_eq (field clarify_reply ''type'') (JStr ''tutorial_clarify'')"
    by (simp add: clarify_reply_def field_def)
  from tutorial_context_stability
    [of example_host created_S1 "Response 200 (Some tutorial_reply)"
        "typed ''How to add a new region?'' (initial None)" 200 tutorial_reply two_steps
        "Response 200 (Some clarify_reply)" 200 clarify_reply created_S1 "''clarify step 1''"]
    1 2 3 4 5 6 7 8
  show ?thesis by blast
qed

text \<open>
  C4. A message is sent while no session is active, and the backend answers the creation
  with a session id (a truthy \<^verbatim>\<open>session_id\<close>). Then the send makes one creation request
  and, after it, the chat request, which carries the new id; the id is the active one and
  the per-tab store holds it. A second send right after it makes no creation request: its
  requests are the chat request, carrying the same id, and at most a refresh of the
  session list; the active id and the stored pointer are unchanged. Both hold whatever the
  chat requests are answered.
\<close>

theorem lazy_creation_once:
  assumes "\<not> truthy (currentSessionId \<sigma>)" and "isArray (chatStateHistory \<sigma>)"
    and "js_trim (messageInput \<sigma>) = message" and "message \<noteq> []"
    and "session_id_of created = Inr session_id" and "truthy session_id"
    and "js_trim input' = message'" and "message' \<noteq> []"
  shows "currentSessionId (sendMessage h created answer \<sigma>) = session_id
       \<and> sessionStorage (sendMessage h created answer \<sigma>) = Some (to_string session_id)
       \<and> (\<exists>rest. requests (sendMessage h created answer \<sigma>) =
                   requests \<sigma> @ CreateSession USER_ID LICENSE_ID
                     # Chat message session_id (lastTutorialSteps \<sigma>) # rest
                 \<and> set rest \<subseteq> {ListSessions USER_ID})
       \<and> currentSessionId
            (sendMessage h created' answer' (typed input' (sendMessage h created answer \<sigma>)))
           = session_id
       \<and> sessionStorage
            (sendMessage h created' answer' (typed input' (sendMessage h created answer \<sigma>)))
           = Some (to_string session_id)
       \<and> (\<exists>rest. requests
                    (sendMessage h created' answer' (typed input' (sendMessage h created answer \<sigma>)))
                 = requests (sendMessage h created answer \<sigma>)
                     @ Chat message' session_id (lastTutorialSteps (sendMessage h created answer \<sigma>))
                     # rest
                 \<and> set rest \<subseteq> {ListSessions USER_ID})"
proof -
  let ?\<sigma>1 = "sendMessage h created answer \<sigma>"
  let ?t = "typed input' ?\<sigma>1"
  note first = sendMessage_session [OF assms(2) assms(3) assms(4), of h created answer]
  have id1: "currentSessionId ?\<sigma>1 = session_id"
    using first(1) assms(1,5) by (simp add: create_session_fields)
  have st1: "sessionStorage ?\<sigma>1 = Some (to_string session_id)"
    using first(2) assms(1,5) by (simp add: create_session_fields)
  have rq1: "\<exists>rest. requests ?\<sigma>1 =
                   requests \<sigma> @ CreateSession USER_ID LICENSE_ID
                     # Chat message session_id (lastTutorialSteps \<sigma>) # rest
                 \<and> set rest \<subseteq> {ListSessions USER_ID}"
    using first(3) assms(1,5) by (simp add: create_session_fields create_session_fst)
  have arr: "isArray (chatStateHistory ?t)"
    using assms(2) by (simp add: typed_def sendMessage_isArray)
  have inp: "js_trim (messageInput ?t) = message'"
    using assms(7) by (simp add: typed_def)
  have act: "truthy (currentSessionId ?t)"
    using id1 assms(6) by (simp add: typed_def)
  note second = sendMessage_session [OF arr inp assms(8), of h created' answer']
  have id2: "currentSessionId (sendMessage h created' answer' ?t) = session_id"
    using second(1) act id1 by (simp add: create_session_fields typed_def)
  have st2: "sessionStorage (sendMessage h created' answer' ?t) = Some (to_string session_id)"
    using second(2) act st1 by (simp add: create_session_fields typed_def)
  have rq2: "\<exists>rest. requests (sendMessage h created' answer' ?t)
                 = requests ?\<sigma>1 @ Chat message' session_id (lastTutorialSteps ?\<sigma>1) # rest
                 \<and> set rest \<subseteq> {ListSessions USER_ID}"
    using second(3) act id1 by (simp add: create_session_fields create_session_fst typed_def)
  from id1 st1 rq1 id2 st2 rq2 show ?thesis by blast
qed

theorem lazy_creation_once_witness:
  "currentSessionId
     (sendMessage example_host created_S1 (Response 200 (Some reply_hello))
        (typed ''again''
           (sendMessage example_host created_S1 (Response 200 (Some reply_hello))
              (typed ''hi'' (initial None))))) = JStr ''S1''
   \<and> sessionStorage
       (sendMessage example_host created_S1 (Response 200 (Some reply_hello))
          (typed ''hi'' (initial None))) = Some ''S1''"
proof -
  have 1: "\<not> truthy (currentSessionId (typed ''hi'' (initial None)))"
    by (simp add: typed_def initial_def)
  have 2: "isArray (chatStateHistory (typed ''hi'' (initial None)))"
    by (simp add: typed_def initial_def)
  have 3: "js_trim (messageInput (typed ''hi'' (initial None))) = ''hi''"
    by code_simp
  have 4: "''hi'' \<noteq> []"
    by simp
  have 5: "session_id_of created_S1 = Inr (JStr ''S1'')"
    by (simp add: session_id_of_def created_S1_def)
  have 6: "truthy (JStr ''S1'')"
    by simp
  have 7: "js_trim ''again'' = ''again''"
    by code_simp
  have 8: "''again'' \<noteq> []"
    by simp
  from lazy_creation_once [OF 1 2 3 4 5 6 7 8,
      of example_host "Response 200 (Some reply_hello)" created_S1 "Response 200 (Some reply_hello)"]
  show ?thesis by simp
qed

text \<open>
  C7. A message is sent; the markdown library renders the first character of the error
  text, and no typing indicator is left in the page from before. If the chat request is
  rejected, or answered with a status that is not 2xx, or with a body that does not parse,
  the \<^verbatim>\<open>catch\<close> block logs one \<^verbatim>\<open>Send error:\<close> line and the page gains the user bubble
  and the one assistant bubble with \<^verbatim>\<open>Sorry, something went wrong. Try again.\<close> And
  whenever a send logs (for these failures and for any other exception of the \<^verbatim>\<open>try\<close>
  block), the local history is the one before the call followed by the user entry alone,
  the tutorial cache is unchanged, the last bubble is that message, nothing is left
  uncaught and the send button is enabled.
\<close>

theorem send_error_atomicity:
  assumes "chatStateHistory \<sigma> = JArr old"
    and "js_trim (messageInput \<sigma>) = message" and "message \<noteq> []"
    and "marked_parse h (JStr ''S'') = Inr markup"
    and "TypingIndicator \<notin> set (chatHistory \<sigma>)"
  shows "((answer = Rejected
            \<or> (\<exists>status body. answer = Response status body \<and> (\<not> ok status \<or> body = None))) \<longrightarrow>
          (\<exists>err. console (sendMessage h created answer \<sigma>) = console \<sigma> @ [(''Send error:'', err)])
          \<and> chatHistory (sendMessage h created answer \<sigma>)
              = chatHistory \<sigma> @ [UserMessage (JStr message),
                                   AssistantMessage [TypeWriter (JStr send_error) []]])
       \<and> (console (sendMessage h created answer \<sigma>) \<noteq> console \<sigma> \<longrightarrow>
          (\<exists>err. console (sendMessage h created answer \<sigma>) = console \<sigma> @ [(''Send error:'', err)])
          \<and> chatStateHistory (sendMessage h created answer \<sigma>)
              = JArr (old @ [JStr (''User: '' @ message)])
          \<and> lastTutorialSteps (sendMessage h created answer \<sigma>) = lastTutorialSteps \<sigma>
          \<and> last (chatHistory (sendMessage h created answer \<sigma>))
              = AssistantMessage [TypeWriter (JStr send_error) []]
          \<and> unhandled (sendMessage h created answer \<sigma>) = unhandled \<sigma>
          \<and> \<not> sendBtn_disabled (sendMessage h created answer \<sigma>))"
proof -
  let ?b = "snd (send_begin h message \<sigma>)"
  let ?t = "send_try h message created answer ?b"
  have arr: "isArray (chatStateHistory \<sigma>)" using assms(1) by simp
  have eq: "sendMessage h created answer \<sigma> = send_end h ?t"
    using assms arr by (simp add: sendMessage_sent)
  have b_arr: "isArray (chatStateHistory ?b)" using arr by (simp add: send_begin_fields)
  have parts: "assistant_parts h (JStr send_error) JNull True = Inr [TypeWriter (JStr send_error) []]"
    using assms(4) by (rule send_error_parts)
  have cons: "console (sendMessage h created answer \<sigma>) =
                console \<sigma> @ (case fst ?t of None \<Rightarrow> [] | Some err \<Rightarrow> [(''Send error:'', err)])"
    by (simp add: eq send_end_console send_try_frame send_begin_fields)
  have named: "(\<exists>err. console (sendMessage h created answer \<sigma>) = console \<sigma> @ [(''Send error:'', err)])
          \<and> chatHistory (sendMessage h created answer \<sigma>)
              = chatHistory \<sigma> @ [UserMessage (JStr message),
                                   AssistantMessage [TypeWriter (JStr send_error) []]]"
    if "answer = Rejected
        \<or> (\<exists>status body. answer = Response status body \<and> (\<not> ok status \<or> body = None))"
  proof -
    from send_try_named_failure [OF that, of h message created ?b]
    obtain err where err: "fst ?t = Some err"
      and hist: "chatHistory (snd ?t) = chatHistory ?b
                 \<or> chatHistory (snd ?t) = remove1 TypingIndicator (chatHistory ?b)"
      by auto
    have "remove1 TypingIndicator (chatHistory (snd ?t)) = chatHistory \<sigma> @ [UserMessage (JStr message)]"
      using hist arr assms(5) by (auto simp: send_begin_fields remove1_append)
    then show ?thesis using err cons parts by (simp add: eq send_end_chatHistory)
  qed
  have failed: "(\<exists>err. console (sendMessage h created answer \<sigma>) = console \<sigma> @ [(''Send error:'', err)])
          \<and> chatStateHistory (sendMessage h created answer \<sigma>)
              = JArr (old @ [JStr (''User: '' @ message)])
          \<and> lastTutorialSteps (sendMessage h created answer \<sigma>) = lastTutorialSteps \<sigma>
          \<and> last (chatHistory (sendMessage h created answer \<sigma>))
              = AssistantMessage [TypeWriter (JStr send_error) []]
          \<and> unhandled (sendMessage h created answer \<sigma>) = unhandled \<sigma>
          \<and> \<not> sendBtn_disabled (sendMessage h created answer \<sigma>)"
    if "console (sendMessage h created answer \<sigma>) \<noteq> console \<sigma>"
  proof -
    from that cons obtain err where err: "fst ?t = Some err"
      by (cases "fst ?t") auto
    from send_try_fail [OF b_arr err] assms(1)
    have "chatStateHistory (snd ?t) = JArr (old @ [JStr (''User: '' @ message)])"
      and "lastTutorialSteps (snd ?t) = lastTutorialSteps \<sigma>"
      by (simp_all add: send_begin_fields)
    then show ?thesis using err cons parts
      by (simp add: eq send_end_frame send_end_chatHistory send_end_unhandled send_end_sendBtn
          send_try_frame send_begin_fields)
  qed
  from named failed show ?thesis by blast
qed

theorem send_error_atomicity_witness:
  "chatStateHistory
     (sendMessage example_host created_S1 (Response 500 None) (typed ''hi'' (initial None)))
     = JArr [JStr ''User: hi'']
   \<and> chatHistory
     (sendMessage example_host created_S1 (Response 500 None) (typed ''hi'' (initial None)))
     = [UserMessage (JStr ''hi''), AssistantMessage [TypeWriter (JStr send_error) []]]"
proof -
  have 1: "chatStateHistory (typed ''hi'' (initial None)) = JArr []"
    by (simp add: typed_def initial_def)
  have 2: "js_trim (messageInput (typed ''hi'' (initial None))) = ''hi''"
    by code_simp
  have 3: "''hi'' \<noteq> []"
    by simp
  have 4: "marked_parse example_host (JStr ''S'') = Inr ''S''"
    by (simp add: example_host_def)
  have 5: "TypingIndicator \<notin> set (chatHistory (typed ''hi'' (initial None)))"
    by (simp add: typed_def initial_def)
  have 6: "Response 500 None = Rejected
           \<or> (\<exists>status body. Response 500 None = Response status body \<and> (\<not> ok status \<or> body = None))"
    by (simp add: ok_def)
  have 7: "chatHistory (typed ''hi'' (initial None)) = []"
    by (simp add: typed_def initial_def)
  from send_error_atomicity [OF 1 2 3 4 5, of "Response 500 None" created_S1] 6 7
  show ?thesis
    by auto
qed

text \<open>
  C2, as stated, fails for \<^verbatim>\<open>tutorial_clarify\<close>. A clarification whose step has an empty
  \<^verbatim>\<open>clarified\<close> derives the empty text although the reply has a \<^verbatim>\<open>content\<close>, so nothing
  is appended after the user entry. A clarification without \<^verbatim>\<open>clarified_step\<close> does not
  reach the derivation: \<^verbatim>\<open>renderTutorialClarifyResponse\<close> reads \<^verbatim>\<open>cs.step_number\<close> of
  \<^verbatim>\<open>undefined\<close>, the send ends in the \<^verbatim>\<open>catch\<close> block, and again nothing is appended.
\<close>

theorem derived_text_selection_counterexample:
  "field clarify_empty ''content'' = JStr ''Open the settings page''
   \<and> assistantText clarify_empty = Inr []
   \<and> chatStateHistory
       (sendMessage example_host created_S1 (Response 200 (Some clarify_empty))
          (typed ''clarify step 1'' (initial None)))
       = JArr [JStr ''User: clarify step 1'']
   \<and> field clarify_without_step ''content'' = JStr ''Open the settings page''
   \<and> chatStateHistory
       (sendMessage example_host created_S1 (Response 200 (Some clarify_without_step))
          (typed ''clarify step 1'' (initial None)))
       = JArr [JStr ''User: clarify step 1'']
   \<and> console
       (sendMessage example_host created_S1 (Response 200 (Some clarify_without_step))
          (typed ''clarify step 1'' (initial None)))
       = [(''Send error:'', TypeError)]"
  by code_simp


text \<open>
  C2, amended. For a reply that reaches the derivation (it is not \<^verbatim>\<open>null\<close>, and its
  rendering did not throw): type \<^verbatim>\<open>tutorial\<close> yields \<^verbatim>\<open>content + " " + summary\<close>, trimmed,
  an absent part counting as empty; type \<^verbatim>\<open>tutorial_clarify\<close> with a \<^verbatim>\<open>clarified_step\<close>
  yields the trimmed \<^verbatim>\<open>clarified_step.clarified\<close>, and the empty text when that is absent
  or empty; every other reply, a \<^verbatim>\<open>tutorial_clarify\<close> without \<^verbatim>\<open>clarified_step\<close> among
  them, yields the trimmed \<^verbatim>\<open>content\<close>, and the empty text when that is absent or empty.
  The derived text is appended to the local history as \<^verbatim>\<open>Assistant: <text>\<close>, and nothing
  is appended when it is empty.
\<close>

theorem derived_text_selection:
  assumes "js_get data ''type'' = Inr type"
  shows "(strict_eq type (JStr ''tutorial'') \<longrightarrow>
            assistantText data
              = Inr (js_trim (to_string (js_or (field data ''content'') (JStr [])) @ '' ''
                              @ to_string (js_or (field data ''summary'') (JStr [])))))
       \<and> (strict_eq type (JStr ''tutorial_clarify'') \<and> truthy (field data ''clarified_step'') \<longrightarrow>
            (\<forall>clarified. field (field data ''clarified_step'') ''clarified'' = JStr clarified \<longrightarrow>
                assistantText data = Inr (js_trim clarified))
          \<and> (\<not> truthy (field (field data ''clarified_step'') ''clarified'') \<longrightarrow>
                assistantText data = Inr []))
       \<and> (\<not> strict_eq type (JStr ''tutorial'')
          \<and> \<not> (strict_eq type (JStr ''tutorial_clarify'') \<and> truthy (field data ''clarified_step'')) \<longrightarrow>
            (\<forall>content. field data ''content'' = JStr content \<longrightarrow>
                assistantText data = Inr (js_trim content))
          \<and> (\<not> truthy (field data ''content'') \<longrightarrow> assistantText data = Inr []))
       \<and> (\<forall>text local. assistantText data = Inr text \<and> chatStateHistory \<sigma> = JArr local \<longrightarrow>
            append_assistantText data \<sigma>
              = (None, \<sigma>\<lparr>chatStateHistory := JArr (with_assistant local text)\<rparr>))"
proof -
  have trim_empty: "js_trim [] = []"
    by (simp add: js_trim_def)
  have tutorial: "assistantText data
              = Inr (js_trim (to_string (js_or (field data ''content'') (JStr [])) @ '' ''
                              @ to_string (js_or (field data ''summary'') (JStr []))))"
    if "strict_eq type (JStr ''tutorial'')"
    using that assms by (simp add: assistantText_def andThen_def trim_call_def)
  have clarify: "(\<forall>clarified. field (field data ''clarified_step'') ''clarified'' = JStr clarified \<longrightarrow>
                assistantText data = Inr (js_trim clarified))
          \<and> (\<not> truthy (field (field data ''clarified_step'') ''clarified'') \<longrightarrow>
                assistantText data = Inr [])"
    if "strict_eq type (JStr ''tutorial_clarify'') \<and> truthy (field data ''clarified_step'')"
    using that assms
    by (auto simp add: assistantText_def andThen_def trim_call_def js_or_def trim_empty
        strict_eq_JStr)
  have other: "(\<forall>content. field data ''content'' = JStr content \<longrightarrow>
                assistantText data = Inr (js_trim content))
          \<and> (\<not> truthy (field data ''content'') \<longrightarrow> assistantText data = Inr [])"
    if "\<not> strict_eq type (JStr ''tutorial'')
          \<and> \<not> (strict_eq type (JStr ''tutorial_clarify'') \<and> truthy (field data ''clarified_step''))"
    using that assms
    by (auto simp add: assistantText_def andThen_def trim_call_def js_or_def trim_empty)
  have app: "append_assistantText data \<sigma>
              = (None, \<sigma>\<lparr>chatStateHistory := JArr (with_assistant local derived)\<rparr>)"
    if "assistantText data = Inr derived \<and> chatStateHistory \<sigma> = JArr local" for derived local
    using that by (simp add: append_assistantText_def push_def with_assistant_def)
  from tutorial clarify other app show ?thesis
    by blast
qed

theorem derived_text_selection_witness:
  "assistantText tutorial_reply = Inr ''Here is how done''
   \<and> assistantText clarify_reply = Inr ''Click the gear icon''
   \<and> append_assistantText clarify_reply (initial None)
       = (None, (initial None)\<lparr>chatStateHistory := JArr [JStr ''Assistant: Click the gear icon'']\<rparr>)"
proof -
  have t: "js_get tutorial_reply ''type'' = Inr (JStr ''tutorial'')"
    by (simp add: tutorial_reply_def)
  have c: "js_get clarify_reply ''type'' = Inr (JStr ''tutorial_clarify'')"
    by (simp add: clarify_reply_def)
  have t1: "js_trim (to_string (js_or (field tutorial_reply ''content'') (JStr [])) @ '' ''
                     @ to_string (js_or (field tutorial_reply ''summary'') (JStr [])))
            = ''Here is how done''"
    by code_simp
  have c1: "truthy (field clarify_reply ''clarified_step'')"
    by code_simp
  have c2: "field (field clarify_reply ''clarified_step'') ''clarified'' = JStr ''Click the gear icon''"
    by code_simp
  have c3: "js_trim ''Click the gear icon'' = ''Click the gear icon''"
    by code_simp
  have i: "chatStateHistory (initial None) = JArr []"
    by (simp add: initial_def)
  from derived_text_selection [OF t, of "initial None"] t1
  have 1: "assistantText tutorial_reply = Inr ''Here is how done''"
    by simp
  from derived_text_selection [OF c, of "initial None"] c1 c2 c3
  have 2: "assistantText clarify_reply = Inr ''Click the gear icon''"
    by simp
  from derived_text_selection [OF c, of "initial None"] 2 i
  have 3: "append_assistantText clarify_reply (initial None)
       = (None, (initial None)\<lparr>chatStateHistory := JArr [JStr ''Assistant: Click the gear icon'']\<rparr>)"
    by (simp add: with_assistant_def)
  from 1 2 3 show ?thesis by simp
qed

text \<open>
  C9, as stated, fails for the lazy creation. The first send of a conversation fails
  because the backend cannot be reached; the second send creates the session and is
  answered, but the local history then has three entries, so the refresh, which line 708
  makes only with at most two, is not made: no request for the session list follows the
  creation.
\<close>

theorem session_list_refresh_counterexample:
  "requests
     (sendMessage example_host created_S1 (Response 200 (Some reply_plain))
        (typed ''second try''
           (sendMessage example_host Rejected Rejected (typed ''hi'' (initial None)))))
     = [CreateSession USER_ID LICENSE_ID, CreateSession USER_ID LICENSE_ID,
        Chat ''second try'' (JStr ''S1'') []]
   \<and> currentSessionId
       (sendMessage example_host created_S1 (Response 200 (Some reply_plain))
          (typed ''second try''
             (sendMessage example_host Rejected Rejected (typed ''hi'' (initial None)))))
     = JStr ''S1''"
  by code_simp


text \<open>
  C9, amended. A successful delete and a successful rename each trigger a refresh of the
  session list. A send triggers one when it goes through and the local history, after the
  reconciliation, has at most two entries, whether or not the send created the session;
  with more entries it triggers none.
\<close>

theorem session_list_refresh:
  "(truthy (sessionToDelete \<sigma>) \<and> ok status \<longrightarrow>
      requests (confirmDeleteBtn_onclick (Response status body) \<sigma>)
        = requests \<sigma> @ [DeleteSession (to_string (sessionToDelete \<sigma>)), ListSessions USER_ID])
   \<and> (newTitle \<noteq> [] \<and> \<not> strict_eq (JStr newTitle) currentTitle \<and> ok status \<longrightarrow>
      requests (renameSession sessionId currentTitle (Some newTitle) (Response status body) \<sigma>)
        = requests \<sigma> @ [RenameSession (to_string sessionId) newTitle, ListSessions USER_ID])
   \<and> (chatStateHistory \<sigma> = JArr old \<and> js_trim (messageInput \<sigma>) = message \<and> message \<noteq> []
        \<and> (truthy (currentSessionId \<sigma>) \<or> session_id_of created = Inr session_id)
        \<and> answer = Response status (Some data) \<and> ok status
        \<and> assistant_parts h (JStr []) data True = Inr parts
        \<and> assistantText data = Inr text \<longrightarrow>
      requests (sendMessage h created answer \<sigma>)
        = requests \<sigma>
          @ (if truthy (currentSessionId \<sigma>) then [] else [CreateSession USER_ID LICENSE_ID])
          @ [Chat message (if truthy (currentSessionId \<sigma>) then currentSessionId \<sigma> else session_id)
               (lastTutorialSteps \<sigma>)]
          @ (if length (reconciled (with_assistant (old @ [JStr (''User: '' @ message)]) text)
                          (field data ''conversation_history'')) \<le> 2
             then [ListSessions USER_ID] else []))"
proof (intro conjI impI)
  assume "truthy (sessionToDelete \<sigma>) \<and> ok status"
  then show "requests (confirmDeleteBtn_onclick (Response status body) \<sigma>)
        = requests \<sigma> @ [DeleteSession (to_string (sessionToDelete \<sigma>)), ListSessions USER_ID]"
    by (simp add: confirmDeleteBtn_onclick_def closeConfirmModal_def newChat_def
        fetchSessions_call_def Let_def)
next
  assume "newTitle \<noteq> [] \<and> \<not> strict_eq (JStr newTitle) currentTitle \<and> ok status"
  then show "requests (renameSession sessionId currentTitle (Some newTitle) (Response status body) \<sigma>)
        = requests \<sigma> @ [RenameSession (to_string sessionId) newTitle, ListSessions USER_ID]"
    by (simp add: renameSession_def fetchSessions_call_def Let_def)
next
  assume a: "chatStateHistory \<sigma> = JArr old \<and> js_trim (messageInput \<sigma>) = message \<and> message \<noteq> []
        \<and> (truthy (currentSessionId \<sigma>) \<or> session_id_of created = Inr session_id)
        \<and> answer = Response status (Some data) \<and> ok status
        \<and> assistant_parts h (JStr []) data True = Inr parts
        \<and> assistantText data = Inr text"
  let ?b = "snd (send_begin h message \<sigma>)"
  from a have ready: "fst (create_session created ?b) = None"
    by (auto simp: create_session_fst send_begin_fields)
  from a have arr: "isArray (chatStateHistory \<sigma>)" by simp
  have sid: "currentSessionId (snd (create_session created ?b))
               = (if truthy (currentSessionId \<sigma>) then currentSessionId \<sigma> else session_id)"
    using a by (auto simp: create_session_fields send_begin_fields)
  show "requests (sendMessage h created answer \<sigma>)
        = requests \<sigma>
          @ (if truthy (currentSessionId \<sigma>) then [] else [CreateSession USER_ID LICENSE_ID])
          @ [Chat message (if truthy (currentSessionId \<sigma>) then currentSessionId \<sigma> else session_id)
               (lastTutorialSteps \<sigma>)]
          @ (if length (reconciled (with_assistant (old @ [JStr (''User: '' @ message)]) text)
                          (field data ''conversation_history'')) \<le> 2
             then [ListSessions USER_ID] else [])"
    using a arr ready sid
    by (simp add: sendMessage_sent send_end_frame send_try_chat chat_shapes
        removeTypingIndicator_def process_reply_requests process_reply_fst
        create_session_fields create_session_frame send_begin_fields)
qed

theorem session_list_refresh_witness:
  "requests (confirmDeleteBtn_onclick (Response 204 None) (deleteSession (JStr ''S1'') (initial None)))
     = [DeleteSession ''S1'', ListSessions USER_ID]
   \<and> requests (renameSession (JStr ''S1'') (JStr ''Old'') (Some ''New'') (Response 200 None)
                 (initial None))
     = [RenameSession ''S1'' ''New'', ListSessions USER_ID]
   \<and> requests (sendMessage example_host created_S1 (Response 200 (Some reply_hello))
                 (typed ''hi'' (initial None)))
     = [CreateSession USER_ID LICENSE_ID, Chat ''hi'' (JStr ''S1'') [], ListSessions USER_ID]"
proof -
  have d: "truthy (sessionToDelete (deleteSession (JStr ''S1'') (initial None))) \<and> ok 204"
    by (simp add: deleteSession_def initial_def ok_def)
  from session_list_refresh [of "deleteSession (JStr ''S1'') (initial None)" 204 None] d
  have 1: "requests (confirmDeleteBtn_onclick (Response 204 None)
                       (deleteSession (JStr ''S1'') (initial None)))
     = [DeleteSession ''S1'', ListSessions USER_ID]"
    by (simp add: deleteSession_def initial_def)
  have r: "''New'' \<noteq> [] \<and> \<not> strict_eq (JStr ''New'') (JStr ''Old'') \<and> ok 200"
    by (simp add: ok_def)
  from session_list_refresh [of "initial None" 200 None "''New''" "JStr ''Old''" "JStr ''S1''"] r
  have 2: "requests (renameSession (JStr ''S1'') (JStr ''Old'') (Some ''New'') (Response 200 None)
                 (initial None))
     = [RenameSession ''S1'' ''New'', ListSessions USER_ID]"
    by (simp add: initial_def)
  have s1: "chatStateHistory (typed ''hi'' (initial None)) = JArr []"
    by (simp add: typed_def initial_def)
  have s2: "js_trim (messageInput (typed ''hi'' (initial None))) = ''hi''"
    by code_simp
  have s3: "session_id_of created_S1 = Inr (JStr ''S1'')"
    by (simp add: session_id_of_def created_S1_def)
  have s4: "assistant_parts example_host (JStr []) reply_hello True
            = Inr [TypeWriter (JStr ''hello'') []]"
    by code_simp
  have s5: "assistantText reply_hello = Inr ''hello''"
    by code_simp
  have s6: "\<not> truthy (currentSessionId (typed ''hi'' (initial None)))"
    by (simp add: typed_def initial_def)
  have s7: "lastTutorialSteps (typed ''hi'' (initial None)) = []
            \<and> requests (typed ''hi'' (initial None)) = []"
    by (simp add: typed_def initial_def)
  have s8: "length (reconciled (with_assistant ([] @ [JStr (''User: '' @ ''hi'')]) ''hello'')
                      (field reply_hello ''conversation_history'')) \<le> 2"
    by code_simp
  from session_list_refresh
    [of "typed ''hi'' (initial None)" 200 None _ _ _ "[]" "''hi''" created_S1 "JStr ''S1''"
        "Response 200 (Some reply_hello)" reply_hello example_host "[TypeWriter (JStr ''hello'') []]"
        "''hello''"]
    s1 s2 s3 s4 s5 s6 s7 s8
  have 3: "requests (sendMessage example_host created_S1 (Response 200 (Some reply_hello))
                 (typed ''hi'' (initial None)))
     = [CreateSession USER_ID LICENSE_ID, Chat ''hi'' (JStr ''S1'') [], ListSessions USER_ID]"
    by (simp add: ok_def)
  from 1 2 3 show ?thesis by simp
qed

section \<open>Properties of the session manager\<close>

text \<open>
  C8, as stated, fails in two places. A tutorial was shown in session \<^verbatim>\<open>S1\<close>; another
  session is selected and the backend answers its detail with status 500: the active id
  is the new one and the cache still holds the steps of \<^verbatim>\<open>S1\<close>. And the send path has no
  reset: when a creation was answered without an id, the tutorial of the reply is cached
  with no active session, and the next send creates \<^verbatim>\<open>S1\<close> and sends these steps with
  its first chat request.
\<close>

theorem tutorial_cache_reset_counterexample:
  "currentSessionId
     (selectSession example_host (JStr ''S2'') (Response 500 None)
        (sendMessage example_host created_S1 (Response 200 (Some tutorial_reply))
           (typed ''How to add a new region?'' (initial None)))) = JStr ''S2''
   \<and> lastTutorialSteps
       (selectSession example_host (JStr ''S2'') (Response 500 None)
          (sendMessage example_host created_S1 (Response 200 (Some tutorial_reply))
             (typed ''How to add a new region?'' (initial None)))) = two_steps
   \<and> currentSessionId
       (sendMessage example_host created_nothing (Response 200 (Some tutorial_reply))
          (typed ''How to add a new region?'' (initial None))) = JUndefined
   \<and> requests
       (sendMessage example_host created_S1 (Response 200 (Some clarify_reply))
          (typed ''clarify step 1''
             (sendMessage example_host created_nothing (Response 200 (Some tutorial_reply))
                (typed ''How to add a new region?'' (initial None)))))
     = [CreateSession USER_ID LICENSE_ID,
        Chat ''How to add a new region?'' JUndefined [],
        ListSessions USER_ID,
        CreateSession USER_ID LICENSE_ID,
        Chat ''clarify step 1'' (JStr ''S1'') two_steps]"
  by code_simp

text \<open>
  C8, amended. The tutorial step cache is empty after \<^verbatim>\<open>newChat\<close>, and after the selection
  of a session other than the active one once its detail is loaded (a 2xx answer whose
  body parses and is not \<^verbatim>\<open>null\<close>). The lazy creation of the send path leaves the cache as
  it is, and the chat request that follows carries it as it was before the send.
\<close>

theorem tutorial_cache_reset:
  "lastTutorialSteps (newChat \<sigma>) = []
   \<and> (\<not> strict_eq (currentSessionId \<sigma>) sessionId \<and> ok status
        \<and> js_get data ''history'' = Inr history \<longrightarrow>
      lastTutorialSteps (selectSession h sessionId (Response status (Some data)) \<sigma>) = [])
   \<and> lastTutorialSteps (snd (create_session created \<sigma>)) = lastTutorialSteps \<sigma>
   \<and> (isArray (chatStateHistory \<sigma>) \<and> js_trim (messageInput \<sigma>) = message \<and> message \<noteq> []
        \<and> fst (create_session created \<sigma>) = None \<longrightarrow>
      Chat message (currentSessionId (snd (create_session created \<sigma>))) (lastTutorialSteps \<sigma>)
        \<in> set (requests (sendMessage h created answer \<sigma>)))"
proof (intro conjI impI)
  show "lastTutorialSteps (newChat \<sigma>) = []"
    by (simp add: newChat_def fetchSessions_call_def)
next
  assume "\<not> strict_eq (currentSessionId \<sigma>) sessionId \<and> ok status
        \<and> js_get data ''history'' = Inr history"
  then show "lastTutorialSteps (selectSession h sessionId (Response status (Some data)) \<sigma>) = []"
    by (simp add: selectSession_def Let_def catch_log_frame selectSession_try_loaded)
next
  show "lastTutorialSteps (snd (create_session created \<sigma>)) = lastTutorialSteps \<sigma>"
    by (simp add: create_session_frame)
next
  assume a: "isArray (chatStateHistory \<sigma>) \<and> js_trim (messageInput \<sigma>) = message \<and> message \<noteq> []
        \<and> fst (create_session created \<sigma>) = None"
  with sendMessage_session(3) [of \<sigma> message h created answer]
  show "Chat message (currentSessionId (snd (create_session created \<sigma>))) (lastTutorialSteps \<sigma>)
        \<in> set (requests (sendMessage h created answer \<sigma>))"
    by auto
qed

theorem tutorial_cache_reset_witness:
  "lastTutorialSteps
     (selectSession example_host (JStr ''S2'') detail_S1
        (sendMessage example_host created_S1 (Response 200 (Some tutorial_reply))
           (typed ''How to add a new region?'' (initial None)))) = []
   \<and> Chat ''hi'' (JStr ''S1'') [] \<in>
       set (requests (sendMessage example_host created_S1 (Response 200 (Some reply_hello))
                        (typed ''hi'' (initial None))))"
proof -
  let ?\<sigma> = "sendMessage example_host created_S1 (Response 200 (Some tutorial_reply))
              (typed ''How to add a new region?'' (initial None))"
  have 1: "\<not> strict_eq (currentSessionId ?\<sigma>) (JStr ''S2'')"
    by code_simp
  have 2: "ok 200"
    by (simp add: ok_def)
  have 3: "js_get (JObj [(''history'', JArr legacy_history)]) ''history'' = Inr (JArr legacy_history)"
    by simp
  from tutorial_cache_reset
    [of ?\<sigma> "JStr ''S2''" 200 "JObj [(''history'', JArr legacy_history)]" "JArr legacy_history"
        example_host] 1 2 3
  have a: "lastTutorialSteps (selectSession example_host (JStr ''S2'') detail_S1 ?\<sigma>) = []"
    by (simp add: detail_S1_def)
  have 4: "isArray (chatStateHistory (typed ''hi'' (initial None)))"
    by (simp add: typed_def initial_def)
  have 5: "js_trim (messageInput (typed ''hi'' (initial None))) = ''hi''"
    by code_simp
  have 6: "fst (create_session created_S1 (typed ''hi'' (initial None))) = None"
    by code_simp
  have 7: "currentSessionId (snd (create_session created_S1 (typed ''hi'' (initial None)))) = JStr ''S1''"
    by code_simp
  have 8: "lastTutorialSteps (typed ''hi'' (initial None)) = []"
    by (simp add: typed_def initial_def)
  from tutorial_cache_reset
    [where \<sigma> = "typed ''hi'' (initial None)" and message = "''hi''" and created = created_S1
       and h = example_host and answer = "Response 200 (Some reply_hello)"] 4 5 6 7 8
  have b: "Chat ''hi'' (JStr ''S1'') [] \<in>
       set (requests (sendMessage example_host created_S1 (Response 200 (Some reply_hello))
                        (typed ''hi'' (initial None))))"
    by simp
  from a b show ?thesis by simp
qed

text \<open>
  C5. The page is loaded, and the backend answers \<^verbatim>\<open>GET /sessions\<close> with a list of
  sessions (an array without \<^verbatim>\<open>null\<close> entries). If the pointer of the tab is absent (or is
  the empty string, which the program treats alike), the client is in the landing state;
  from the state of a page just loaded this holds whatever the backend answers.
  If the pointer is present and no listed session has its id, the pointer is cleared and
  the client is in the landing state. If a listed session has its id, the local history,
  the displayed messages, the tutorial cache, the active id and the pointer are those of
  an explicit \<^verbatim>\<open>selectSession\<close> with that id, given the same answer to the detail request.
\<close>

theorem restore_on_load:
  assumes "isFirstLoad \<sigma>" and "js_get data ''sessions'' = Inr (JArr sessions)"
    and "list_all (\<lambda>s. s \<noteq> JNull \<and> s \<noteq> JUndefined) sessions"
  shows "(sessionStorage \<sigma> = None \<or> sessionStorage \<sigma> = Some [] \<longrightarrow>
            landing (fetchSessions h (Response status (Some data)) detail \<sigma>))
       \<and> (sessionStorage \<sigma> = Some pointer \<and> pointer \<noteq> []
            \<and> \<not> list_ex (\<lambda>s. strict_eq (field s ''session_id'') (JStr pointer)) sessions \<longrightarrow>
            landing (fetchSessions h (Response status (Some data)) detail \<sigma>))
       \<and> (sessionStorage \<sigma> = Some pointer \<and> pointer \<noteq> []
            \<and> list_ex (\<lambda>s. strict_eq (field s ''session_id'') (JStr pointer)) sessions \<longrightarrow>
            chatStateHistory (fetchSessions h (Response status (Some data)) detail \<sigma>)
              = chatStateHistory (selectSession h (JStr pointer) detail \<sigma>)
            \<and> chatHistory (fetchSessions h (Response status (Some data)) detail \<sigma>)
              = chatHistory (selectSession h (JStr pointer) detail \<sigma>)
            \<and> lastTutorialSteps (fetchSessions h (Response status (Some data)) detail \<sigma>)
              = lastTutorialSteps (selectSession h (JStr pointer) detail \<sigma>)
            \<and> currentSessionId (fetchSessions h (Response status (Some data)) detail \<sigma>)
              = currentSessionId (selectSession h (JStr pointer) detail \<sigma>)
            \<and> sessionStorage (fetchSessions h (Response status (Some data)) detail \<sigma>)
              = sessionStorage (selectSession h (JStr pointer) detail \<sigma>))
       \<and> landing (fetchSessions h answer detail (initial None))"
proof -
  let ?c = "fetchSessions_call \<sigma>"
  from displaySessions_array [OF assms(3), of ?c]
  obtain sb where shown: "displaySessions (JArr sessions) ?c = (None, ?c\<lparr>sidebarContent := sb\<rparr>)"
    by blast
  let ?d = "\<sigma>\<lparr>requests := requests \<sigma> @ [ListSessions USER_ID], sidebarContent := sb\<rparr>"
  have d: "?c\<lparr>sidebarContent := sb\<rparr> = ?d"
    by (simp add: fetchSessions_call_def)
  have run: "fetchSessions h (Response status (Some data)) detail \<sigma>
               = catch_log ''Error fetching sessions:''
                   (seq (restore h (JArr sessions) detail) (lift (\<lambda>\<sigma>. \<sigma>\<lparr>isFirstLoad := False\<rparr>))) ?d"
    using assms(1,2) shown
    by (simp add: fetchSessions_def fetchSessions_resume_def fetchSessions_try_def catch_log_def
        seq_def d)
  have absent: "landing (fetchSessions h (Response status (Some data)) detail \<sigma>)"
    if "sessionStorage \<sigma> = None \<or> sessionStorage \<sigma> = Some []"
    using that
    by (auto simp: run restore_def catch_log_def seq_def lift_def newChat_def landing_def
        fetchSessions_call_def)
  have gone: "landing (fetchSessions h (Response status (Some data)) detail \<sigma>)"
    if "sessionStorage \<sigma> = Some pointer \<and> pointer \<noteq> []
        \<and> \<not> list_ex (\<lambda>s. strict_eq (field s ''session_id'') (JStr pointer)) sessions"
    using that some_session_list_ex [OF assms(3), of pointer]
    by (simp add: run restore_def sessionExists_def catch_log_def seq_def lift_def newChat_def
        landing_def fetchSessions_call_def)
  have found: "fetchSessions h (Response status (Some data)) detail \<sigma>
                 = (selectSession h (JStr pointer) detail ?d)\<lparr>isFirstLoad := False\<rparr>"
    if "sessionStorage \<sigma> = Some pointer \<and> pointer \<noteq> []
        \<and> list_ex (\<lambda>s. strict_eq (field s ''session_id'') (JStr pointer)) sessions"
    using that some_session_list_ex [OF assms(3), of pointer]
    by (simp add: run restore_def sessionExists_def catch_log_def seq_def lift_def)
  from absent gone found landing_initial [of h answer detail]
    selectSession_independent [where h = h and sessionId = "JStr pointer" and detail = detail
      and \<sigma> = \<sigma> and r = "requests \<sigma> @ [ListSessions USER_ID]" and sb = sb]
  show ?thesis
    by auto
qed

theorem restore_on_load_witness:
  "landing (fetchSessions example_host list_S1 detail_S1 (initial None))
   \<and> landing (fetchSessions example_host list_S1 detail_S1 (initial (Some ''S9'')))
   \<and> chatStateHistory (fetchSessions example_host list_S1 detail_S1 (initial (Some ''S1'')))
       = JArr legacy_history"
proof -
  let ?data = "JObj [(''sessions'',
                       JArr [JObj [(''session_id'', JStr ''S1''), (''title'', JStr ''Regions'')]])]"
  let ?sessions = "[JObj [(''session_id'', JStr ''S1''), (''title'', JStr ''Regions'')]]"
  have l: "list_S1 = Response 200 (Some ?data)"
    by (simp add: list_S1_def)
  have 1: "js_get ?data ''sessions'' = Inr (JArr ?sessions)"
    by simp
  have 2: "list_all (\<lambda>s. s \<noteq> JNull \<and> s \<noteq> JUndefined) ?sessions"
    by simp
  have f: "isFirstLoad (initial p)" for p
    by (simp add: initial_def)
  have s: "sessionStorage (initial p) = p" for p
    by (simp add: initial_def)
  have 3: "\<not> list_ex (\<lambda>s. strict_eq (field s ''session_id'') (JStr ''S9'')) ?sessions"
    by (simp add: field_def)
  have 4: "list_ex (\<lambda>s. strict_eq (field s ''session_id'') (JStr ''S1'')) ?sessions"
    by (simp add: field_def)
  have 5: "chatStateHistory (selectSession example_host (JStr ''S1'') detail_S1 (initial (Some ''S1'')))
           = JArr legacy_history"
    by code_simp
  from restore_on_load [OF f 1 2, of None example_host 200 detail_S1] s
  have a: "landing (fetchSessions example_host list_S1 detail_S1 (initial None))"
    by (simp add: l)
  from restore_on_load [OF f 1 2, of "Some ''S9''" example_host 200 detail_S1 "''S9''"] s 3
  have b: "landing (fetchSessions example_host list_S1 detail_S1 (initial (Some ''S9'')))"
    by (simp add: l)
  from restore_on_load [OF f 1 2, of "Some ''S1''" example_host 200 detail_S1 "''S1''"] s 4 5
  have c: "chatStateHistory (fetchSessions example_host list_S1 detail_S1 (initial (Some ''S1'')))
       = JArr legacy_history"
    by (simp add: l)
  from a b c show ?thesis by simp
qed

text \<open>
  C6. In the replay of a loaded history, a legacy entry and its structured form give the
  same step, so the same displayed message; an entry of neither form is skipped, the
  state staying as it is, and a history replays as the history without such entries; and
  the messages displayed by \<^verbatim>\<open>selectSession\<close> are the same for a history and for the
  history of the structured forms of its entries.
\<close>

theorem hydration_equivalence:
  "replay h (structured msg) \<sigma> = replay h msg \<sigma>
   \<and> (\<not> recognised msg \<longrightarrow> replay h msg \<sigma> = (None, \<sigma>))
   \<and> forEach_step (replay h) (filter recognised msgs) \<sigma> = forEach_step (replay h) msgs \<sigma>
   \<and> chatHistory
        (selectSession h sessionId
           (Response status (Some (JObj [(''history'', JArr (map structured msgs))]))) \<sigma>)
     = chatHistory
        (selectSession h sessionId (Response status (Some (JObj [(''history'', JArr msgs)]))) \<sigma>)"
  by (simp add: replay_structured replay_skip forEach_replay_recognised selectSession_def Let_def
      catch_log_frame selectSession_try_structured)

theorem hydration_equivalence_witness:
  "chatHistory
     (selectSession example_host (JStr ''S1'')
        (Response 200
           (Some (JObj [(''history'',
                           JArr [JObj [(''role'', JStr ''user''), (''content'', JStr ''hi'')],
                                 JObj [(''role'', JStr ''assistant''),
                                       (''content'', JStr ''hello'')]])])))
        (initial None))
   = chatHistory (selectSession example_host (JStr ''S1'') detail_S1 (initial None))
   \<and> chatHistory (selectSession example_host (JStr ''S1'') detail_S1 (initial None))
       = [UserMessage (JStr ''hi''), AssistantMessage [Markdown ''hello'']]
   \<and> replay example_host (JNum 5) (initial None) = (None, initial None)"
proof -
  have 1: "map structured legacy_history
           = [JObj [(''role'', JStr ''user''), (''content'', JStr ''hi'')],
              JObj [(''role'', JStr ''assistant''), (''content'', JStr ''hello'')]]"
    by code_simp
  have 2: "\<not> recognised (JNum 5)"
    by (simp add: recognised_def)
  have 3: "chatHistory (selectSession example_host (JStr ''S1'') detail_S1 (initial None))
       = [UserMessage (JStr ''hi''), AssistantMessage [Markdown ''hello'']]"
    by code_simp
  from hydration_equivalence
    [of example_host "JNum 5" "initial None" legacy_history "JStr ''S1''" 200] 1 2 3
  show ?thesis
    by (simp add: detail_S1_def)
qed

end
